theory Spec2Isabelle
  imports Complex_Main "HOL-Library.Sublist"
begin

section \<open>Python strings\<close>

text \<open>
  A Python \<open>str\<close> is modelled as a list of characters whose code points lie in
  0..255 (Latin-1). On this range the character classes below are the ones CPython uses
  for \<open>str.isspace\<close> (hence \<open>str.strip\<close>), \<open>str.lower\<close>, and the regular
  expression classes \<open>\d\<close> and \<open>\w\<close>. Every keyword, sentinel and example of the
  program is ASCII.
\<close>

definition is_space :: "char \<Rightarrow> bool" where
  "is_space c = (let n = (of_char c :: nat) in
     (9 \<le> n \<and> n \<le> 13) \<or> (28 \<le> n \<and> n \<le> 32) \<or> n = 133 \<or> n = 160)"

definition lower_char :: "char \<Rightarrow> char" where
  "lower_char c = (let n = (of_char c :: nat) in
     if (65 \<le> n \<and> n \<le> 90) \<or> (192 \<le> n \<and> n \<le> 222 \<and> n \<noteq> 215)
     then char_of (n + 32) else c)"

text \<open>\<open>s.lower()\<close> and \<open>s.strip()\<close>.\<close>

definition lower :: "string \<Rightarrow> string" where
  "lower s = map lower_char s"

definition strip :: "string \<Rightarrow> string" where
  "strip s = rev (dropWhile is_space (rev (dropWhile is_space s)))"

text \<open>The regular expression classes \<open>\d\<close> and \<open>\w\<close> (for \<open>str\<close> patterns).\<close>

definition is_digit :: "char \<Rightarrow> bool" where
  "is_digit c = (let n = (of_char c :: nat) in 48 \<le> n \<and> n \<le> 57)"

definition is_word :: "char \<Rightarrow> bool" where
  "is_word c = (let n = (of_char c :: nat) in
     (48 \<le> n \<and> n \<le> 57) \<or> (65 \<le> n \<and> n \<le> 90) \<or> n = 95 \<or> (97 \<le> n \<and> n \<le> 122) \<or>
     n = 170 \<or> n = 178 \<or> n = 179 \<or> n = 181 \<or> n = 185 \<or> n = 186 \<or>
     (188 \<le> n \<and> n \<le> 190) \<or> (192 \<le> n \<and> n \<le> 214) \<or> (216 \<le> n \<and> n \<le> 246) \<or>
     (248 \<le> n \<and> n \<le> 255))"

text \<open>
  \<open>t.count(w)\<close>: the number of non-overlapping occurrences of \<open>w\<close> in \<open>t\<close>, found
  from the left; after a match the search resumes behind it. The empty string is found
  between all characters.
\<close>

function str_count :: "string \<Rightarrow> string \<Rightarrow> nat" where
  "str_count t w =
     (if w = [] then length t + 1
      else if length t < length w then 0
      else if take (length w) t = w then 1 + str_count (drop (length w) t) w
      else str_count (tl t) w)"
  by pat_completeness auto
termination
proof (relation "measure (\<lambda>(t, w). length t)")
  show "wf (measure (\<lambda>(t, w). length t))" by simp
next
  fix t w :: string
  assume "w \<noteq> []" "\<not> length t < length w"
  then have "0 < length w" "0 < length t" by (cases w; cases t; simp)+
  then show "((drop (length w) t, w), (t, w)) \<in> measure (\<lambda>(t, w). length t)" by simp
next
  fix t w :: string
  assume "w \<noteq> []" "\<not> length t < length w"
  then have "0 < length t" by (cases w; cases t; simp)
  then show "((tl t, w), (t, w)) \<in> measure (\<lambda>(t, w). length t)" by simp
qed

declare str_count.simps [simp del]

text \<open>\<open>w in t\<close> for two strings: \<open>w\<close> occurs in \<open>t\<close> as a contiguous substring.\<close>

fun str_contains :: "string \<Rightarrow> string \<Rightarrow> bool" where
  "str_contains [] w = (w = [])"
| "str_contains (c # cs) w = (prefix w (c # cs) \<or> str_contains cs w)"

section \<open>The document classifier (classifier.py)\<close>

record pattern_lists =
  pat_keywords :: "string list"
  pat_phrases :: "string list"

text \<open>\<open>self.patterns\<close>, in the insertion order of the dict literal.\<close>

definition patterns :: "(string \<times> pattern_lists) list" where
  "patterns =
    [(''press_release'',
        \<lparr>pat_keywords =
           [''press release'', ''announces'', ''acquisition'', ''merger'',
            ''transaction'', ''closing'', ''signing'', ''agreement'',
            ''forward-looking statements'', ''safe harbor''],
         pat_phrases =
           [''for immediate release'', ''announced today'', ''pleased to announce'',
            ''has agreed to acquire'', ''has completed the acquisition'']\<rparr>),
     (''quarterly_report'',
        \<lparr>pat_keywords =
           [''quarterly report'', ''q1'', ''q2'', ''q3'', ''q4'',
            ''quarterly results'', ''earnings'', ''fiscal quarter'',
            ''three months ended'', ''quarterly financial''],
         pat_phrases =
           [''quarterly report'', ''financial results'', ''quarterly earnings'',
            ''fiscal quarter ended'']\<rparr>),
     (''annual_report'',
        \<lparr>pat_keywords =
           [''annual report'', ''form 10-k'', ''fiscal year'',
            ''annual results'', ''yearly results'', ''12 months ended'',
            ''annual financial'', ''year ended''],
         pat_phrases =
           [''annual report'', ''fiscal year ended'', ''year ended december'',
            ''twelve months ended'']\<rparr>),
     (''investor_deck'',
        \<lparr>pat_keywords =
           [''investor presentation'', ''company overview'',
            ''investment highlights'', ''business strategy'',
            ''market opportunity'', ''financial projections'',
            ''slide'', ''presentation''],
         pat_phrases =
           [''investor presentation'', ''company overview'', ''investment thesis'',
            ''business highlights'']\<rparr>)]"

text \<open>
  The scoring loop shared by \<open>classify_document\<close> and
  \<open>get_classification_confidence\<close>: \<open>score\<close> starts at 0, every keyword adds
  \<open>count * 1\<close>, then every phrase adds \<open>count * 2\<close>.
\<close>

definition score_of :: "string \<Rightarrow> pattern_lists \<Rightarrow> nat" where
  "score_of text_lower p =
     fold (\<lambda>phrase score. score + str_count text_lower (lower phrase) * 2) (pat_phrases p)
       (fold (\<lambda>keyword score. score + str_count text_lower (lower keyword) * 1)
          (pat_keywords p) 0)"

definition scores :: "string \<Rightarrow> (string \<times> nat) list" where
  "scores txt = map (\<lambda>(doc_type, p). (doc_type, score_of (lower txt) p)) patterns"

text \<open>
  \<open>max(scores, key=scores.get)\<close>: the first key, in iteration order, whose value is
  maximal. The running best is replaced only by a strictly greater value.
\<close>

fun max_by_value :: "string \<times> nat \<Rightarrow> (string \<times> nat) list \<Rightarrow> string \<times> nat" where
  "max_by_value best [] = best"
| "max_by_value best (kv # rest) = max_by_value (if snd best < snd kv then kv else best) rest"

text \<open>
  \<open>classify_document\<close>. \<open>max\<close> of an empty sequence raises ValueError, which the
  \<open>except\<close> clause turns into \<open>other\<close>.
\<close>

definition classify_document :: "string \<Rightarrow> string" where
  "classify_document txt =
     (case scores txt of
        [] \<Rightarrow> ''other''
      | kv # rest \<Rightarrow>
          if 0 < fold max (map snd rest) (snd kv)
          then fst (max_by_value kv rest)
          else ''other'')"

text \<open>
  \<open>get_classification_confidence\<close>. Python computes the quotient and the product in
  binary floating point; the model computes them in exact rational arithmetic. When the
  total is not positive the integer scores are returned as they are.
\<close>

definition get_classification_confidence :: "string \<Rightarrow> (string \<times> rat) list" where
  "get_classification_confidence txt =
     (let sc = scores txt; total_score = sum_list (map snd sc) in
      if 0 < total_score
      then map (\<lambda>(doc_type, s). (doc_type, (of_nat s / of_nat total_score) * 100)) sc
      else map (\<lambda>(doc_type, s). (doc_type, of_nat s)) sc)"

definition financial_keywords :: "string list" where
  "financial_keywords =
     [''revenue'', ''ebitda'', ''earnings'', ''profit'', ''loss'',
      ''financial results'', ''income statement'', ''balance sheet'',
      ''cash flow'', ''financial performance'', ''million'', ''billion'']"

definition mna_keywords :: "string list" where
  "mna_keywords =
     [''acquisition'', ''merger'', ''buyout'', ''transaction'', ''deal'',
      ''acquire'', ''purchase'', ''buy'', ''sell'', ''divestiture'',
      ''target'', ''buyer'', ''seller'', ''closing'', ''completion'']"

text \<open>\<open>sum(1 for keyword in keywords if keyword in text_lower)\<close>.\<close>

definition keyword_count :: "string list \<Rightarrow> string \<Rightarrow> nat" where
  "keyword_count kws text_lower =
     sum_list (map (\<lambda>keyword. 1) (filter (\<lambda>keyword. str_contains text_lower keyword) kws))"

definition is_financial_document :: "string \<Rightarrow> bool" where
  "is_financial_document txt = (3 \<le> keyword_count financial_keywords (lower txt))"

definition is_mna_document :: "string \<Rightarrow> bool" where
  "is_mna_document txt = (2 \<le> keyword_count mna_keywords (lower txt))"

section \<open>Python values\<close>

text \<open>
  The values \<open>json.loads\<close> produces. An \<open>int\<close> is unbounded. A \<open>float\<close> is
  represented by its \<open>repr\<close> (the shortest string that reads back as the same float);
  the program only tests a float for truth and converts it with \<open>str\<close>. A \<open>dict\<close> is
  the list of its items in insertion order, looked up by \<open>map_of\<close>.
\<close>

datatype json =
    JNull
  | JBool bool
  | JInt int
  | JFloat string
  | JStr string
  | JList "json list"
  | JObj "(string \<times> json) list"

text \<open>
  The exceptions (subclasses of \<open>Exception\<close>) the program can meet, each with the
  text \<open>str(e)\<close> gives. \<open>OtherError\<close> stands for whatever a collaborator raises.
\<close>

datatype py_error =
    JSONDecodeError string
  | TypeError string
  | KeyError string
  | OtherError string

fun str_e :: "py_error \<Rightarrow> string" where
  "str_e (JSONDecodeError m) = m"
| "str_e (TypeError m) = m"
| "str_e (KeyError k) = [CHR 0x27] @ k @ [CHR 0x27]"
| "str_e (OtherError m) = m"

text \<open>Truth value testing (\<open>if value:\<close>).\<close>

fun truthy :: "json \<Rightarrow> bool" where
  "truthy JNull = False"
| "truthy (JBool b) = b"
| "truthy (JInt i) = (i \<noteq> 0)"
| "truthy (JFloat r) = (r \<noteq> ''0.0'' \<and> r \<noteq> ''-0.0'')"
| "truthy (JStr s) = (s \<noteq> [])"
| "truthy (JList xs) = (xs \<noteq> [])"
| "truthy (JObj kvs) = (kvs \<noteq> [])"

fun is_str :: "json \<Rightarrow> bool" where
  "is_str (JStr s) = True"
| "is_str v = False"

text \<open>Decimal notation of a natural number, and of an integer as \<open>str\<close> prints it.\<close>

fun show_nat :: "nat \<Rightarrow> string" where
  "show_nat n =
     (if n < 10 then [''0123456789'' ! n]
      else show_nat (n div 10) @ [''0123456789'' ! (n mod 10)])"

declare show_nat.simps [simp del]

definition show_int :: "int \<Rightarrow> string" where
  "show_int i = (if i < 0 then CHR ''-'' # show_nat (nat (- i)) else show_nat (nat i))"

text \<open>
  \<open>repr\<close> of a string: single quotes unless the string has a single quote and no
  double quote; backslash, the chosen quote, tab, newline and carriage return are escaped
  with a backslash, every other non-printable character as \<open>\xNN\<close>.
\<close>

definition hex_digit :: "nat \<Rightarrow> char" where
  "hex_digit n = ''0123456789abcdef'' ! n"

definition is_printable :: "char \<Rightarrow> bool" where
  "is_printable c = (let n = (of_char c :: nat) in
     \<not> (n < 32 \<or> (127 \<le> n \<and> n \<le> 160) \<or> n = 173))"

definition repr_char :: "char \<Rightarrow> char \<Rightarrow> string" where
  "repr_char q c =
     (if c = q \<or> c = CHR 0x5C then [CHR 0x5C, c]
      else if c = CHR 0x09 then [CHR 0x5C, CHR ''t'']
      else if c = CHR 0x0A then [CHR 0x5C, CHR ''n'']
      else if c = CHR 0x0D then [CHR 0x5C, CHR ''r'']
      else if \<not> is_printable c
        then [CHR 0x5C, CHR ''x'', hex_digit (of_char c div 16), hex_digit (of_char c mod 16)]
      else [c])"

definition repr_str :: "string \<Rightarrow> string" where
  "repr_str s =
     (let q = (if CHR 0x27 \<in> set s \<and> CHR 0x22 \<notin> set s then CHR 0x22 else CHR 0x27)
      in [q] @ concat (map (repr_char q) s) @ [q])"

fun join :: "string \<Rightarrow> string list \<Rightarrow> string" where
  "join sep [] = []"
| "join sep [x] = x"
| "join sep (x # y # ys) = x @ sep @ join sep (y # ys)"

fun py_repr :: "json \<Rightarrow> string" where
  "py_repr JNull = ''None''"
| "py_repr (JBool b) = (if b then ''True'' else ''False'')"
| "py_repr (JInt i) = show_int i"
| "py_repr (JFloat r) = r"
| "py_repr (JStr s) = repr_str s"
| "py_repr (JList xs) = ''['' @ join '', '' (map py_repr xs) @ '']''"
| "py_repr (JObj kvs) =
     ''{'' @ join '', '' (map (\<lambda>kv. repr_str (fst kv) @ '': '' @ py_repr (snd kv)) kvs) @ ''}''"

text \<open>\<open>str(value)\<close>.\<close>

definition py_str :: "json \<Rightarrow> string" where
  "py_str v = (case v of JStr s \<Rightarrow> s | _ \<Rightarrow> py_repr v)"

text \<open>
  \<open>re.sub(r'[^...]', '', x)\<close> with a negated character class: the characters of the
  class are kept, all others removed. An argument that is not a string raises TypeError.
\<close>

definition re_sub_keep :: "(char \<Rightarrow> bool) \<Rightarrow> json \<Rightarrow> py_error + string" where
  "re_sub_keep keep x =
     (case x of
        JStr s \<Rightarrow> Inr (filter keep s)
      | _ \<Rightarrow> Inl (TypeError ''expected string or bytes-like object''))"

text \<open>
  \<open>re.match(r'\d{4}-\d{2}-\d{2}', x)\<close>: whether the string starts with four digits, a
  hyphen, two digits, a hyphen and two digits.
\<close>

definition re_match_date :: "json \<Rightarrow> py_error + bool" where
  "re_match_date x =
     (case x of
        JStr s \<Rightarrow>
          Inr (10 \<le> length s \<and> list_all is_digit (take 4 s) \<and> s ! 4 = CHR ''-'' \<and>
               list_all is_digit (take 2 (drop 5 s)) \<and> s ! 7 = CHR ''-'' \<and>
               list_all is_digit (take 2 (drop 8 s)))
      | _ \<Rightarrow> Inl (TypeError ''expected string or bytes-like object''))"

text \<open>
  \<open>re.search(r'\{.*\}', s, re.DOTALL)\<close> and \<open>.group()\<close>: the span from the first
  opening brace to the last closing brace behind it, if there is one.
\<close>

definition re_search_braces :: "string \<Rightarrow> string option" where
  "re_search_braces s =
     (let rest = dropWhile (\<lambda>c. c \<noteq> CHR 0x7B) s in
      if CHR 0x7D \<in> set rest
      then Some (rev (dropWhile (\<lambda>c. c \<noteq> CHR 0x7D) (rev rest)))
      else None)"

section \<open>Dictionaries and the store\<close>

text \<open>
  The inner dictionaries of the schema (one per section) are mutable objects that several
  outer dictionaries refer to, so they live in a store: an address holds a dictionary,
  the list of its items in insertion order. An outer dictionary maps a section name to
  the address of its inner dictionary; the program never assigns to an outer dictionary
  after building it, so outer dictionaries are plain values.
\<close>

type_synonym pydict = "(string \<times> json) list"
type_synonym addr = nat
type_synonym store = "addr \<Rightarrow> pydict"
type_synonym outer_dict = "(string \<times> addr) list"

text \<open>\<open>d[k] = v\<close>: replaces the value of an existing key in place, appends a new key.\<close>

fun dict_set :: "pydict \<Rightarrow> string \<Rightarrow> json \<Rightarrow> pydict" where
  "dict_set [] k v = [(k, v)]"
| "dict_set ((k', v') # d) k v = (if k' = k then (k, v) # d else (k', v') # dict_set d k v)"

text \<open>\<open>x[section][field] = v\<close> where \<open>x[section]\<close> is the dictionary at address \<open>a\<close>.\<close>

definition store_set :: "addr \<Rightarrow> string \<Rightarrow> json \<Rightarrow> store \<Rightarrow> store" where
  "store_set a field v h = h(a := dict_set (h a) field v)"

text \<open>
  \<open>d.copy()\<close> on an outer dictionary: a new outer dictionary with the same items. The
  items are references, so the copy shares every inner dictionary with the original.
\<close>

definition shallow_copy :: "outer_dict \<Rightarrow> outer_dict" where
  "shallow_copy d = d"

text \<open>What a reader of an outer dictionary sees: every section with its current items.\<close>

definition snapshot :: "store \<Rightarrow> outer_dict \<Rightarrow> (string \<times> pydict) list" where
  "snapshot h d = map (\<lambda>(section, a). (section, h a)) d"

section \<open>The orchestrator (ai_orchestrator.py)\<close>

record datetime =
  year :: nat
  month :: nat
  day :: nat
  hour :: nat
  minute :: nat
  second :: nat
  microsecond :: nat

definition pad :: "nat \<Rightarrow> nat \<Rightarrow> string" where
  "pad k n = replicate (k - length (show_nat n)) CHR ''0'' @ show_nat n"

text \<open>\<open>dt.isoformat()\<close> and \<open>dt.strftime('%Y%m%d_%H%M%S')\<close> (the year in four digits).\<close>

definition isoformat :: "datetime \<Rightarrow> string" where
  "isoformat dt =
     pad 4 (year dt) @ ''-'' @ pad 2 (month dt) @ ''-'' @ pad 2 (day dt) @ ''T'' @
     pad 2 (hour dt) @ '':'' @ pad 2 (minute dt) @ '':'' @ pad 2 (second dt) @
     (if microsecond dt = 0 then [] else ''.'' @ pad 6 (microsecond dt))"

definition strftime_stamp :: "datetime \<Rightarrow> string" where
  "strftime_stamp dt =
     pad 4 (year dt) @ pad 2 (month dt) @ pad 2 (day dt) @ ''_'' @
     pad 2 (hour dt) @ pad 2 (minute dt) @ pad 2 (second dt)"

text \<open>
  \<open>__init__\<close> builds the schema: five inner dictionaries, here at the addresses 0 to 4,
  and the outer dictionary \<open>self.mna_schema\<close> that refers to them. \<open>created\<close> is what
  \<open>datetime.now()\<close> returned while the literal was evaluated.
\<close>

definition schema_literal :: "datetime \<Rightarrow> (string \<times> pydict) list" where
  "schema_literal created =
     [(''deal_summary'',
         [(''deal_name'', JStr ''''), (''deal_type'', JStr ''''),
          (''target_company'', JStr ''''), (''buyer'', JStr ''''), (''seller'', JStr ''''),
          (''country'', JStr ''''), (''announcement_date'', JStr ''''),
          (''signing_date'', JStr ''''), (''closing_date'', JStr ''''),
          (''deal_size_usd'', JStr ''''), (''currency'', JStr ''''), (''status'', JStr '''')]),
      (''financials'',
         [(''revenue'', JStr ''''), (''ebitda'', JStr ''''), (''enterprise_value'', JStr ''''),
          (''ev_ebitda_multiple'', JStr ''''), (''debt_assumed'', JStr ''''),
          (''other_key_metrics'', JStr '''')]),
      (''advisors'',
         [(''buy_side_advisor'', JStr ''''), (''sell_side_advisor'', JStr ''''),
          (''legal_counsel_buyer'', JStr ''''), (''legal_counsel_seller'', JStr ''''),
          (''other_advisors'', JStr '''')]),
      (''power_plant_details'',
         [(''project_name'', JStr ''''), (''location'', JStr ''''), (''capacity_mw'', JStr ''''),
          (''technology_type'', JStr ''''), (''cod'', JStr '''')]),
      (''metadata'',
         [(''deal_id'', JStr ''''), (''source_file_name'', JStr ''''),
          (''date_processed'', JStr (isoformat created)),
          (''extraction_confidence'', JStr '''')])]"

definition mna_schema :: outer_dict where
  "mna_schema =
     [(''deal_summary'', 0), (''financials'', 1), (''advisors'', 2),
      (''power_plant_details'', 3), (''metadata'', 4)]"

definition init_store :: "datetime \<Rightarrow> store" where
  "init_store created = (\<lambda>a. if a < 5 then snd (schema_literal created ! a) else [])"

text \<open>
  The collaborators of one call of \<open>process_document\<close>: the completion call (the prompt
  goes in; it raises, or \<open>response.choices[0].message.content\<close> comes out, which may be
  \<open>None\<close>), \<open>json.loads\<close>, and the two readings of the clock.
\<close>

record prompt =
  prompt_doc_type :: string
  prompt_excerpt :: string
  prompt_schema :: "(string \<times> pydict) list"

record env =
  completion :: "prompt \<Rightarrow> py_error + string option"
  json_loads :: "string \<Rightarrow> py_error + json"
  now_processed :: datetime
  now_deal_id :: datetime

text \<open>
  \<open>_create_extraction_prompt\<close>. The prompt is kept as its three variable parts: the
  document type, the first 4000 characters of the text, and the schema as
  \<open>json.dumps\<close> renders it at that moment.
\<close>

definition create_extraction_prompt :: "outer_dict \<Rightarrow> store \<Rightarrow> string \<Rightarrow> string \<Rightarrow> prompt" where
  "create_extraction_prompt self_schema h txt doc_type =
     \<lparr>prompt_doc_type = doc_type, prompt_excerpt = take 4000 txt,
      prompt_schema = snapshot h self_schema\<rparr>"

text \<open>
  What \<open>_parse_ai_response\<close> returns: a freshly decoded value, or (after a
  JSONDecodeError) a shallow copy of the schema.
\<close>

datatype pydata = Decoded json | Schema_copy outer_dict

definition parse_ai_response ::
  "outer_dict \<Rightarrow> env \<Rightarrow> string option \<Rightarrow> py_error + pydata" where
  "parse_ai_response self_schema e response_text =
     (case response_text of
        None \<Rightarrow> Inl (TypeError ''expected string or bytes-like object'')
      | Some s \<Rightarrow>
          (case (case re_search_braces s of
                   Some json_str \<Rightarrow> json_loads e json_str
                 | None \<Rightarrow> json_loads e s) of
             Inr v \<Rightarrow> Inr (Decoded v)
           | Inl (JSONDecodeError m) \<Rightarrow> Inr (Schema_copy (shallow_copy self_schema))
           | Inl err \<Rightarrow> Inl err))"

text \<open>
  \<open>data[section]\<close> when \<open>section in data and isinstance(data[section], dict)\<close> holds:
  a decoded dictionary, or a reference to an inner dictionary of the schema.
\<close>

datatype section_dict = Items pydict | Ref addr

text \<open>
  The test \<open>section in data and isinstance(data[section], dict)\<close>, with the dictionary
  when it holds. \<open>in\<close> on a number, a boolean or \<open>None\<close> raises TypeError; on a string
  it is the substring test and on a list the membership test, and indexing either with a
  string raises TypeError.
\<close>

definition data_section :: "pydata \<Rightarrow> string \<Rightarrow> py_error + section_dict option" where
  "data_section data section =
     (case data of
        Schema_copy d \<Rightarrow> (case map_of d section of None \<Rightarrow> Inr None | Some a \<Rightarrow> Inr (Some (Ref a)))
      | Decoded (JObj kvs) \<Rightarrow>
          (case map_of kvs section of
             Some (JObj fs) \<Rightarrow> Inr (Some (Items fs))
           | _ \<Rightarrow> Inr None)
      | Decoded (JList xs) \<Rightarrow>
          (if JStr section \<in> set xs
           then Inl (TypeError ''list indices must be integers or slices, not str'')
           else Inr None)
      | Decoded (JStr s) \<Rightarrow>
          (if str_contains s section
           then Inl (TypeError ''string indices must be integers, not 'str' '')
           else Inr None)
      | Decoded v \<Rightarrow> Inl (TypeError ''argument is not iterable''))"

definition section_get :: "store \<Rightarrow> section_dict \<Rightarrow> string \<Rightarrow> json option" where
  "section_get h sd field = (case sd of Items fs \<Rightarrow> map_of fs field | Ref a \<Rightarrow> map_of (h a) field)"

text \<open>The cleaning of one value in the merge loop.\<close>

definition clean_value :: "json \<Rightarrow> json" where
  "clean_value v =
     (case v of
        JStr s \<Rightarrow>
          (let s' = strip s in
           if lower s' \<in> set ['''', ''n/a'', ''null'', ''none''] then JStr '''' else JStr s')
      | _ \<Rightarrow> v)"

text \<open>
  The inner loop \<open>for field, default_value in fields.items()\<close> over the fields of the
  schema section at address \<open>a\<close>. The loop only assigns to keys the dictionary already
  has, so the keys it iterates over are those at its start.
\<close>

fun merge_fields :: "addr \<Rightarrow> section_dict \<Rightarrow> string list \<Rightarrow> store \<Rightarrow> store" where
  "merge_fields a sd [] h = h"
| "merge_fields a sd (field # rest) h =
     merge_fields a sd rest
       (case section_get h sd field of
          Some v \<Rightarrow> store_set a field (clean_value v) h
        | None \<Rightarrow> h)"

text \<open>
  The outer loop \<open>for section, fields in cleaned_data.items()\<close>. An exception leaves
  the store as the loop has changed it so far.
\<close>

fun merge_sections :: "pydata \<Rightarrow> outer_dict \<Rightarrow> store \<Rightarrow> py_error option \<times> store" where
  "merge_sections data [] h = (None, h)"
| "merge_sections data ((section, a) # rest) h =
     (case data_section data section of
        Inl err \<Rightarrow> (Some err, h)
      | Inr None \<Rightarrow> merge_sections data rest h
      | Inr (Some sd) \<Rightarrow> merge_sections data rest (merge_fields a sd (map fst (h a)) h))"

definition date_fields :: "(string \<times> string) list" where
  "date_fields =
     [(''deal_summary'', ''announcement_date''), (''deal_summary'', ''signing_date''),
      (''deal_summary'', ''closing_date''), (''power_plant_details'', ''cod'')]"

text \<open>
  One round of the loop of \<open>_validate_dates\<close>. Both branches on the match leave the
  value as it is; only an exception of \<open>re.match\<close> (the value is not a string) resets
  the field.
\<close>

definition validate_date_field :: "outer_dict \<Rightarrow> string \<times> string \<Rightarrow> store \<Rightarrow> store" where
  "validate_date_field data sf h =
     (case map_of data (fst sf) of
        None \<Rightarrow> h
      | Some a \<Rightarrow>
          (case map_of (h a) (snd sf) of
             None \<Rightarrow> h
           | Some date_str \<Rightarrow>
               if truthy date_str \<and> date_str \<noteq> JStr ''N/A''
               then (case re_match_date date_str of
                       Inr matched \<Rightarrow> (if matched then h else h)
                     | Inl err \<Rightarrow> store_set a (snd sf) (JStr '''') h)
               else h))"

definition validate_dates :: "outer_dict \<Rightarrow> store \<Rightarrow> store" where
  "validate_dates data h = fold (validate_date_field data) date_fields h"

definition monetary_fields :: "(string \<times> string) list" where
  "monetary_fields =
     [(''deal_summary'', ''deal_size_usd''), (''financials'', ''revenue''),
      (''financials'', ''ebitda''), (''financials'', ''enterprise_value''),
      (''financials'', ''debt_assumed'')]"

text \<open>One round of the loop of \<open>_validate_monetary_values\<close>.\<close>

definition validate_monetary_field :: "outer_dict \<Rightarrow> string \<times> string \<Rightarrow> store \<Rightarrow> store" where
  "validate_monetary_field data sf h =
     (case map_of data (fst sf) of
        None \<Rightarrow> h
      | Some a \<Rightarrow>
          (case map_of (h a) (snd sf) of
             None \<Rightarrow> h
           | Some v \<Rightarrow>
               if truthy v \<and> v \<noteq> JStr ''N/A''
               then store_set a (snd sf)
                      (JStr (filter (\<lambda>c. is_digit c \<or> c = CHR ''.'') (py_str v))) h
               else h))"

definition validate_monetary_values :: "outer_dict \<Rightarrow> store \<Rightarrow> store" where
  "validate_monetary_values data h = fold (validate_monetary_field data) monetary_fields h"

text \<open>
  \<open>_validate_and_clean_data\<close>: the result is the exception raised, or the dictionary
  returned, together with the store the call leaves behind.
\<close>

definition validate_and_clean_data ::
  "outer_dict \<Rightarrow> pydata \<Rightarrow> store \<Rightarrow> (py_error + outer_dict) \<times> store" where
  "validate_and_clean_data self_schema data h =
     (let cleaned_data = shallow_copy self_schema in
      case merge_sections data cleaned_data h of
        (Some err, h1) \<Rightarrow> (Inl err, h1)
      | (None, h1) \<Rightarrow>
          (Inr cleaned_data, validate_monetary_values cleaned_data (validate_dates cleaned_data h1)))"

text \<open>\<open>data.get(section, {}).get(field, "")\<close>.\<close>

definition get_or_empty :: "outer_dict \<Rightarrow> store \<Rightarrow> string \<Rightarrow> string \<Rightarrow> json" where
  "get_or_empty data h section field =
     (case map_of data section of
        None \<Rightarrow> JStr ''''
      | Some a \<Rightarrow> (case map_of (h a) field of None \<Rightarrow> JStr '''' | Some v \<Rightarrow> v))"

text \<open>
  \<open>_generate_deal_id\<close>: the body of its \<open>try\<close>, and the function with the bare
  \<open>except\<close> that answers every exception with the timestamp form.
\<close>

definition generate_deal_id_try :: "outer_dict \<Rightarrow> store \<Rightarrow> datetime \<Rightarrow> py_error + string" where
  "generate_deal_id_try data h now =
     (let target = get_or_empty data h ''deal_summary'' ''target_company'';
          date = get_or_empty data h ''deal_summary'' ''announcement_date''
      in if truthy target
         then (case re_sub_keep is_word target of
                 Inl err \<Rightarrow> Inl err
               | Inr target_all \<Rightarrow>
                   (case re_sub_keep is_digit date of
                      Inl err \<Rightarrow> Inl err
                    | Inr date_all \<Rightarrow>
                        Inr (''DEAL_'' @ take 10 target_all @ ''_'' @ take 8 date_all)))
         else Inr (''DEAL_'' @ strftime_stamp now))"

definition generate_deal_id :: "outer_dict \<Rightarrow> store \<Rightarrow> datetime \<Rightarrow> string" where
  "generate_deal_id data h now =
     (case generate_deal_id_try data h now of
        Inr deal_id \<Rightarrow> deal_id
      | Inl err \<Rightarrow> ''DEAL_'' @ strftime_stamp now)"

text \<open>\<open>x[section][field] = v\<close> on an outer dictionary; a missing section raises KeyError.\<close>

definition set_item ::
  "outer_dict \<Rightarrow> string \<Rightarrow> string \<Rightarrow> json \<Rightarrow> store \<Rightarrow> py_error option \<times> store" where
  "set_item d section field v h =
     (case map_of d section of
        None \<Rightarrow> (Some (KeyError section), h)
      | Some a \<Rightarrow> (None, store_set a field v h))"

text \<open>The body of the \<open>try\<close> of \<open>process_document\<close>.\<close>

definition process_document_try ::
  "outer_dict \<Rightarrow> env \<Rightarrow> string \<Rightarrow> string \<Rightarrow> store \<Rightarrow> (py_error + outer_dict) \<times> store" where
  "process_document_try self_schema e txt doc_type h =
     (let extraction_prompt = create_extraction_prompt self_schema h txt doc_type in
      case completion e extraction_prompt of
        Inl err \<Rightarrow> (Inl err, h)
      | Inr content \<Rightarrow>
          (case parse_ai_response self_schema e content of
             Inl err \<Rightarrow> (Inl err, h)
           | Inr extracted_data \<Rightarrow>
               (case validate_and_clean_data self_schema extracted_data h of
                  (Inl err, h1) \<Rightarrow> (Inl err, h1)
                | (Inr cleaned_data, h1) \<Rightarrow>
                    (case set_item cleaned_data ''metadata'' ''date_processed''
                            (JStr (isoformat (now_processed e))) h1 of
                       (Some err, h2) \<Rightarrow> (Inl err, h2)
                     | (None, h2) \<Rightarrow>
                         (case set_item cleaned_data ''metadata'' ''deal_id''
                                 (JStr (generate_deal_id cleaned_data h2 (now_deal_id e))) h2 of
                            (Some err, h3) \<Rightarrow> (Inl err, h3)
                          | (None, h3) \<Rightarrow> (Inr cleaned_data, h3))))))"

text \<open>
  \<open>process_document\<close>: the \<open>except Exception\<close> clause copies the schema and records
  the error in its metadata. The result is the exception that leaves the method, or the
  dictionary it returns, with the store the call leaves behind.
\<close>

definition process_document ::
  "outer_dict \<Rightarrow> env \<Rightarrow> string \<Rightarrow> string \<Rightarrow> store \<Rightarrow> (py_error + outer_dict) \<times> store" where
  "process_document self_schema e txt doc_type h =
     (case process_document_try self_schema e txt doc_type h of
        (Inr cleaned_data, h1) \<Rightarrow> (Inr cleaned_data, h1)
      | (Inl err, h1) \<Rightarrow>
          (let error_data = shallow_copy self_schema in
           case set_item error_data ''metadata'' ''extraction_error'' (JStr (str_e err)) h1 of
             (Some err', h2) \<Rightarrow> (Inl err', h2)
           | (None, h2) \<Rightarrow> (Inr error_data, h2)))"

section \<open>Notions used to state and prove the properties\<close>

text \<open>
  The specification's count of a term in a text: the number of positions of the text at
  which the term stands, compared without regard to case; overlapping occurrences all
  count.
\<close>

definition occurrences_with_overlap :: "string \<Rightarrow> string \<Rightarrow> nat" where
  "occurrences_with_overlap txt w =
     length (filter (\<lambda>i. lower (take (length w) (drop i txt)) = lower w)
       [0 ..< Suc (length txt)])"

text \<open>
  A string is unbordered when no proper non-empty prefix of it is also a suffix of it:
  two occurrences of such a string cannot overlap.
\<close>

definition unbordered :: "string \<Rightarrow> bool" where
  "unbordered w = list_all (\<lambda>k. take k w \<noteq> drop (length w - k) w) [1 ..< length w]"

text \<open>
  The number of positions of \<open>t\<close> at which \<open>w\<close> stands, by recursion over \<open>t\<close>.
\<close>

fun occ :: "string \<Rightarrow> string \<Rightarrow> nat" where
  "occ [] w = (if w = [] then 1 else 0)"
| "occ (c # cs) w = (if take (length w) (c # cs) = w then 1 else 0) + occ cs w"

text \<open>
  The value a parsed result gives for a section and a field: present when the result is
  a dictionary whose entry for the section is a dictionary that has the field.
\<close>

definition parsed_field :: "json \<Rightarrow> string \<Rightarrow> string \<Rightarrow> json option" where
  "parsed_field v section field =
     (case v of
        JObj kvs \<Rightarrow> (case map_of kvs section of Some (JObj fs) \<Rightarrow> map_of fs field | _ \<Rightarrow> None)
      | _ \<Rightarrow> None)"

text \<open>The value of a field of a section in a record read from the store.\<close>

definition record_get :: "(string \<times> pydict) list \<Rightarrow> string \<Rightarrow> string \<Rightarrow> json option" where
  "record_get r section field =
     (case map_of r section of None \<Rightarrow> None | Some d \<Rightarrow> map_of d field)"

text \<open>
  What the merge loop does to one inner dictionary \<open>d\<close> when the parsed section is the
  dictionary \<open>fs\<close>, and what the two validations do to one field of it.
\<close>

fun merge_cell :: "pydict \<Rightarrow> string list \<Rightarrow> pydict \<Rightarrow> pydict" where
  "merge_cell fs [] d = d"
| "merge_cell fs (f # rest) d =
     merge_cell fs rest
       (case map_of fs f of Some v \<Rightarrow> dict_set d f (clean_value v) | None \<Rightarrow> d)"

definition section_items :: "(string \<times> json) list \<Rightarrow> string \<Rightarrow> pydict option" where
  "section_items kvs section =
     (case map_of kvs section of Some (JObj fs) \<Rightarrow> Some fs | _ \<Rightarrow> None)"

definition merge_opt :: "pydict option \<Rightarrow> pydict \<Rightarrow> pydict" where
  "merge_opt fso d = (case fso of None \<Rightarrow> d | Some fs \<Rightarrow> merge_cell fs (map fst d) d)"

definition fix_date :: "string \<Rightarrow> pydict \<Rightarrow> pydict" where
  "fix_date f d =
     (case map_of d f of
        None \<Rightarrow> d
      | Some v \<Rightarrow> if truthy v \<and> \<not> is_str v then dict_set d f (JStr '''') else d)"

definition money :: "json \<Rightarrow> json" where
  "money v =
     (if truthy v \<and> v \<noteq> JStr ''N/A''
      then JStr (filter (\<lambda>c. is_digit c \<or> c = CHR ''.'') (py_str v)) else v)"

definition fix_money :: "string \<Rightarrow> pydict \<Rightarrow> pydict" where
  "fix_money f d = (case map_of d f of None \<Rightarrow> d | Some v \<Rightarrow> dict_set d f (money v))"

text \<open>
  The inner dictionary at address \<open>a\<close> after \<open>_validate_and_clean_data\<close> has run on
  a parsed dictionary \<open>kvs\<close>.
\<close>

definition cleaned_cell :: "addr \<Rightarrow> (string \<times> json) list \<Rightarrow> pydict \<Rightarrow> pydict" where
  "cleaned_cell a kvs d =
     (if a = 0 then
        fix_money ''deal_size_usd'' (fix_date ''closing_date'' (fix_date ''signing_date''
          (fix_date ''announcement_date'' (merge_opt (section_items kvs ''deal_summary'') d))))
      else if a = 1 then
        fix_money ''debt_assumed'' (fix_money ''enterprise_value'' (fix_money ''ebitda''
          (fix_money ''revenue'' (merge_opt (section_items kvs ''financials'') d))))
      else if a = 2 then merge_opt (section_items kvs ''advisors'') d
      else if a = 3 then fix_date ''cod'' (merge_opt (section_items kvs ''power_plant_details'') d)
      else if a = 4 then merge_opt (section_items kvs ''metadata'') d
      else d)"

text \<open>
  Example inputs: two readings of the clock, three responses of the model with the
  \<open>json.loads\<close> that decodes them, and the environments built from them.
\<close>

definition example_created :: datetime where
  "example_created =
     \<lparr>year = 2024, month = 1, day = 2, hour = 3, minute = 4, second = 5, microsecond = 0\<rparr>"

definition example_now :: datetime where
  "example_now =
     \<lparr>year = 2024, month = 3, day = 20, hour = 10, minute = 15, second = 0, microsecond = 0\<rparr>"

definition response_buyer :: string where
  \<open>response_buyer = ''{"deal_summary": {"buyer": "X"}}''\<close>

definition response_empty :: string where
  "response_empty = ''{}''"

definition example_loads :: "string \<Rightarrow> py_error + json" where
  "example_loads s =
     (if s = response_buyer then Inr (JObj [(''deal_summary'', JObj [(''buyer'', JStr ''X'')])])
      else if s = response_empty then Inr (JObj [])
      else Inl (JSONDecodeError ''Expecting value: line 1 column 1 (char 0)''))"

definition env_answering :: "string \<Rightarrow> env" where
  "env_answering response =
     \<lparr>completion = (\<lambda>p. Inr (Some response)), json_loads = example_loads,
      now_processed = example_now, now_deal_id = example_now\<rparr>"

definition env_failing :: env where
  "env_failing =
     \<lparr>completion = (\<lambda>p. Inl (OtherError ''Connection error.'')), json_loads = example_loads,
      now_processed = example_now, now_deal_id = example_now\<rparr>"

text \<open>
  The ranges of the components of a Python \<open>datetime\<close>, and the pattern
  \<open>DEAL_\d{8}_\d{6}\<close> as a property of the whole string.
\<close>

definition valid_datetime :: "datetime \<Rightarrow> bool" where
  "valid_datetime dt =
     (1 \<le> year dt \<and> year dt \<le> 9999 \<and> 1 \<le> month dt \<and> month dt \<le> 12 \<and>
      1 \<le> day dt \<and> day dt \<le> 31 \<and> hour dt < 24 \<and> minute dt < 60 \<and> second dt < 60 \<and>
      microsecond dt < 1000000)"

definition deal_id_timestamp_pattern :: "string \<Rightarrow> bool" where
  "deal_id_timestamp_pattern s =
     (length s = 20 \<and> take 5 s = ''DEAL_'' \<and> list_all is_digit (take 8 (drop 5 s)) \<and>
      s ! 13 = CHR ''_'' \<and> list_all is_digit (drop 14 s))"

text \<open>A store in which the deal summary names a target and an announcement date.\<close>

definition example_deal_store :: store where
  "example_deal_store =
     store_set 0 ''announcement_date'' (JStr ''2024-03-15'')
       (store_set 0 ''target_company'' (JStr ''Acme Power Co.'') (init_store example_created))"

text \<open>
  The effect of the two validations on a merged value, by the kind of its field: a date
  field that holds a true value which is not a string is reset, a monetary field is
  reduced to its digits and points.
\<close>

definition date_value :: "json \<Rightarrow> json" where
  "date_value v = (if truthy v \<and> \<not> is_str v then JStr '''' else v)"

definition final_value :: "string \<Rightarrow> string \<Rightarrow> json \<Rightarrow> json" where
  "final_value section field v =
     (if (section, field) \<in> set date_fields then date_value v
      else if (section, field) \<in> set monetary_fields then money v
      else v)"

text \<open>\<open>re.sub(r'[^\d.]', '', s)\<close> on a string.\<close>

definition digits_and_points :: "string \<Rightarrow> string" where
  "digits_and_points s = filter (\<lambda>c. is_digit c \<or> c = CHR ''.'') s"

text \<open>A parsed result with a null and a list in fields of the schema.\<close>

definition example_null_object :: "(string \<times> json) list" where
  "example_null_object =
     [(''deal_summary'', JObj [(''buyer'', JNull), (''country'', JList [JStr ''US'', JStr ''CA''])])]"

text \<open>
  Whitespace trimming and collapsing of the sentinels, on a string; and the section and
  field names of a record.
\<close>

definition clean_str :: "string \<Rightarrow> string" where
  "clean_str s =
     (let s' = strip s in
      if lower s' \<in> set ['''', ''n/a'', ''null'', ''none''] then '''' else s')"

definition field_names :: "(string \<times> pydict) list \<Rightarrow> (string \<times> string list) list" where
  "field_names r = map (\<lambda>(section, d). (section, map fst d)) r"

text \<open>
  A parsed result with one field of the schema, a field the schema does not have, and a
  section the schema does not have.
\<close>

definition example_partial_object :: "(string \<times> json) list" where
  "example_partial_object =
     [(''deal_summary'', JObj [(''buyer'', JStr '' X ''), (''nickname'', JStr ''Project Z'')]),
      (''notes'', JObj [(''remark'', JStr ''none'')])]"

text \<open>
  A parsed result covers a record when it has a string for every field of every section of
  the record. The example has one for every field of the schema.
\<close>

definition has_string_field :: "json \<Rightarrow> string \<Rightarrow> string \<Rightarrow> bool" where
  "has_string_field v section field =
     (case parsed_field v section field of Some (JStr s) \<Rightarrow> True | _ \<Rightarrow> False)"

definition covers_schema :: "json \<Rightarrow> (string \<times> pydict) list \<Rightarrow> bool" where
  "covers_schema v r =
     list_all (\<lambda>(section, d). list_all (\<lambda>(field, default). has_string_field v section field) d) r"

definition example_full_object :: "(string \<times> json) list" where
  "example_full_object =
     map (\<lambda>(section, d). (section,
       JObj (map (\<lambda>(field, default). (field,
          if field = ''revenue'' then JStr ''$5M''
          else if field = ''buyer'' then JStr '' N/A ''
          else JStr '' Acme '')) d)))
       (schema_literal example_created)"


text \<open>
  The merge loop on an inner dictionary when the parsed data is the shallow copy of the
  schema, so that the loop reads the values it cleans from the dictionary it writes to;
  and the two assignments \<open>process_document\<close> makes to the metadata after cleaning.
\<close>

fun self_clean :: "string list \<Rightarrow> pydict \<Rightarrow> pydict" where
  "self_clean [] d = d"
| "self_clean (f # rest) d =
     self_clean rest (case map_of d f of Some v \<Rightarrow> dict_set d f (clean_value v) | None \<Rightarrow> d)"

definition stamp :: "env \<Rightarrow> store \<Rightarrow> store" where
  "stamp e h =
     (let h2 = store_set 4 ''date_processed'' (JStr (isoformat (now_processed e))) h
      in store_set 4 ''deal_id'' (JStr (generate_deal_id mna_schema h2 (now_deal_id e))) h2)"

text \<open>What \<open>_parse_ai_response\<close> passes to \<open>json.loads\<close>, decoded.\<close>

definition loads_response :: "env \<Rightarrow> string \<Rightarrow> py_error + json" where
  "loads_response e s =
     (case re_search_braces s of Some json_str \<Rightarrow> json_loads e json_str
      | None \<Rightarrow> json_loads e s)"

text \<open>
  A record with the error text added to its metadata, and a record with the two stamps
  of \<open>process_document\<close> set in its metadata.
\<close>

definition with_extraction_error ::
  "string \<Rightarrow> (string \<times> pydict) list \<Rightarrow> (string \<times> pydict) list" where
  "with_extraction_error msg r =
     map (\<lambda>(section, d). (section,
       if section = ''metadata'' then d @ [(''extraction_error'', JStr msg)] else d)) r"

definition with_stamps ::
  "string \<Rightarrow> string \<Rightarrow> (string \<times> pydict) list \<Rightarrow> (string \<times> pydict) list" where
  "with_stamps processed deal_id r =
     map (\<lambda>(section, d). (section,
       if section = ''metadata''
       then dict_set (dict_set d ''date_processed'' (JStr processed)) ''deal_id'' (JStr deal_id)
       else d)) r"

text \<open>A response of the model that is prose, with no JSON in it.\<close>

definition response_prose :: string where
  "response_prose = ''No deal is described in this document.''"

section \<open>Properties of the classifier\<close>

subsection \<open>Keyword presence counters\<close>

lemma str_contains_sublist: "str_contains t w = sublist w t"
  by (induction t) (auto simp: sublist_Cons_right)

lemma keyword_count_card:
  "distinct kws \<Longrightarrow> keyword_count kws t = card {k \<in> set kws. sublist k t}"
proof -
  assume d: "distinct kws"
  have "keyword_count kws t = length (filter (\<lambda>k. sublist k t) kws)"
    by (simp add: keyword_count_def str_contains_sublist sum_list_triv)
  also have "\<dots> = card {k \<in> set kws. sublist k t}"
    using d by (simp add: distinct_length_filter Int_def conj_commute)
  finally show ?thesis .
qed

text \<open>
  Claim C9. \<open>is_financial_document\<close> is true exactly when at least 3 of the twelve
  financial keywords occur in the lower-cased text as substrings, and
  \<open>is_mna_document\<close> exactly when at least 2 of the fifteen M&A keywords do. A text with
  exactly three of the financial keywords is accepted, one with exactly two is rejected.
\<close>

theorem keyword_thresholds:
  "(is_financial_document txt
      = (3 \<le> card {k \<in> set financial_keywords. sublist k (lower txt)})) \<and>
   (is_mna_document txt
      = (2 \<le> card {k \<in> set mna_keywords. sublist k (lower txt)})) \<and>
   card {k \<in> set financial_keywords. sublist k (lower ''Revenue, EBITDA and Profit'')} = 3 \<and>
   is_financial_document ''Revenue, EBITDA and Profit'' \<and>
   card {k \<in> set financial_keywords. sublist k (lower ''Revenue and EBITDA'')} = 2 \<and>
   \<not> is_financial_document ''Revenue and EBITDA''"
proof -
  have df: "distinct financial_keywords" by (simp add: financial_keywords_def)
  have dm: "distinct mna_keywords" by (simp add: mna_keywords_def)
  have c3: "keyword_count financial_keywords (lower ''Revenue, EBITDA and Profit'') = 3"
    by code_simp
  have c2: "keyword_count financial_keywords (lower ''Revenue and EBITDA'') = 2"
    by code_simp
  show ?thesis
    using c3 c2
    by (simp add: is_financial_document_def is_mna_document_def
        keyword_count_card [OF df, symmetric] keyword_count_card [OF dm, symmetric])
qed

subsection \<open>Counting occurrences\<close>

text \<open>
  \<open>str.count\<close> counts occurrences that do not overlap. Two occurrences of an
  unbordered string cannot overlap, and every keyword and phrase of the classifier is
  unbordered, so for them the count is the number of all occurrences.
\<close>

lemma occ_positions:
  "occ t w = length (filter (\<lambda>i. take (length w) (drop i t) = w) [0 ..< Suc (length t)])"
proof (induction t)
  case Nil
  show ?case by auto
next
  case (Cons c cs)
  have "[0 ..< Suc (length (c # cs))] = 0 # map Suc [0 ..< Suc (length cs)]"
    by (simp add: upt_conv_Cons map_Suc_upt del: upt_Suc)
  then show ?case using Cons by (simp add: filter_map o_def del: upt_Suc)
qed

lemma lower_take_drop: "lower (take n (drop i t)) = take n (drop i (lower t))"
  by (simp add: lower_def take_map drop_map)

lemma occurrences_occ: "occurrences_with_overlap txt w = occ (lower txt) (lower w)"
  by (simp add: occurrences_with_overlap_def occ_positions lower_take_drop)
     (simp add: lower_def)

lemma occ_skip:
  "w \<noteq> [] \<Longrightarrow> \<forall>i<n. take (length w) (drop i t) \<noteq> w \<Longrightarrow> occ t w = occ (drop n t) w"
proof (induction n arbitrary: t)
  case 0
  then show ?case by simp
next
  case (Suc n)
  show ?case
  proof (cases t)
    case Nil
    then show ?thesis by simp
  next
    case (Cons c cs)
    from Suc.prems(2) have "take (length w) (drop 0 t) \<noteq> w" by blast
    then have h0: "take (length w) (c # cs) \<noteq> w" using Cons by simp
    have "\<forall>i<n. take (length w) (drop i cs) \<noteq> w"
    proof (intro allI impI)
      fix i assume "i < n"
      then have "Suc i < Suc n" by simp
      with Suc.prems(2) have "take (length w) (drop (Suc i) t) \<noteq> w" by blast
      then show "take (length w) (drop i cs) \<noteq> w" using Cons by simp
    qed
    from Suc.IH [OF Suc.prems(1) this] h0 show ?thesis using Cons by simp
  qed
qed

lemma unbordered_no_overlap:
  assumes u: "unbordered w" and m: "take (length w) t = w" and i: "0 < i" "i < length w"
  shows "take (length w) (drop i t) \<noteq> w"
proof
  assume a: "take (length w) (drop i t) = w"
  define k where "k = length w - i"
  have k: "1 \<le> k" "k < length w" using i by (simp_all add: k_def)
  have "drop i w = drop i (take (length w) t)" using m by simp
  also have "\<dots> = take k (drop i t)" by (simp add: drop_take k_def)
  also have "\<dots> = take k (take (length w) (drop i t))" using k by (simp add: min_def)
  also have "\<dots> = take k w" using a by simp
  finally have "take k w = drop (length w - k) w" using i by (simp add: k_def)
  moreover have "k \<in> set [1 ..< length w]" using k by simp
  ultimately show False using u unfolding unbordered_def list_all_iff by blast
qed

lemma str_count_occ:
  "w \<noteq> [] \<Longrightarrow> unbordered w \<Longrightarrow> str_count t w = occ t w"
proof (induction t w rule: str_count.induct)
  case (1 t w)
  show ?case
  proof (cases "length t < length w")
    case True
    have "occ t w = occ (drop (length t) t) w"
    proof (rule occ_skip [OF "1.prems"(1)], intro allI impI)
      fix i assume "i < length t"
      have "length (take (length w) (drop i t)) < length w" using True by simp
      then show "take (length w) (drop i t) \<noteq> w" by auto
    qed
    then show ?thesis using True "1.prems" by (simp add: str_count.simps)
  next
    case False
    note nl = this
    show ?thesis
    proof (cases "take (length w) t = w")
      case True
      obtain c cs where t: "t = c # cs" using nl "1.prems"(1) by (cases t) auto
      have "\<forall>i<length w - 1. take (length w) (drop i cs) \<noteq> w"
      proof (intro allI impI)
        fix i assume "i < length w - 1"
        then have "0 < Suc i" "Suc i < length w" by simp_all
        from unbordered_no_overlap [OF "1.prems"(2) True this]
        show "take (length w) (drop i cs) \<noteq> w" using t by simp
      qed
      from occ_skip [OF "1.prems"(1) this]
      have "occ cs w = occ (drop (length w) t) w"
        using t "1.prems"(1) by (cases w) simp_all
      moreover have "str_count t w = 1 + str_count (drop (length w) t) w"
        using "1.prems"(1) nl True by (subst str_count.simps) simp
      moreover have "str_count (drop (length w) t) w = occ (drop (length w) t) w"
        using "1.IH"(1) "1.prems" nl True by simp
      ultimately show ?thesis using t True by simp
    next
      case False
      obtain c cs where t: "t = c # cs" using nl "1.prems"(1) by (cases t) auto
      have "str_count t w = str_count (tl t) w"
        using "1.prems"(1) nl False by (subst str_count.simps) simp
      moreover have "str_count (tl t) w = occ (tl t) w"
        using "1.IH"(2) "1.prems" nl False by simp
      ultimately show ?thesis using t False by simp
    qed
  qed
qed

lemma fold_add_sum_list:
  "fold (\<lambda>x (s::nat). s + f x) xs a = a + sum_list (map f xs)"
  by (induction xs arbitrary: a) simp_all

lemma lower_char_simps:
  "lower_char CHR ''a'' = CHR ''a''" "lower_char CHR ''b'' = CHR ''b''"
  "lower_char CHR ''c'' = CHR ''c''" "lower_char CHR ''d'' = CHR ''d''"
  "lower_char CHR ''e'' = CHR ''e''" "lower_char CHR ''f'' = CHR ''f''"
  "lower_char CHR ''g'' = CHR ''g''" "lower_char CHR ''h'' = CHR ''h''"
  "lower_char CHR ''i'' = CHR ''i''" "lower_char CHR ''j'' = CHR ''j''"
  "lower_char CHR ''k'' = CHR ''k''" "lower_char CHR ''l'' = CHR ''l''"
  "lower_char CHR ''m'' = CHR ''m''" "lower_char CHR ''n'' = CHR ''n''"
  "lower_char CHR ''o'' = CHR ''o''" "lower_char CHR ''p'' = CHR ''p''"
  "lower_char CHR ''q'' = CHR ''q''" "lower_char CHR ''r'' = CHR ''r''"
  "lower_char CHR ''s'' = CHR ''s''" "lower_char CHR ''t'' = CHR ''t''"
  "lower_char CHR ''u'' = CHR ''u''" "lower_char CHR ''v'' = CHR ''v''"
  "lower_char CHR ''w'' = CHR ''w''" "lower_char CHR ''x'' = CHR ''x''"
  "lower_char CHR ''y'' = CHR ''y''" "lower_char CHR ''z'' = CHR ''z''"
  "lower_char CHR '' '' = CHR '' ''" "lower_char CHR ''-'' = CHR ''-''"
  "lower_char CHR ''0'' = CHR ''0''" "lower_char CHR ''1'' = CHR ''1''"
  "lower_char CHR ''2'' = CHR ''2''" "lower_char CHR ''3'' = CHR ''3''"
  "lower_char CHR ''4'' = CHR ''4''" "lower_char CHR ''Q'' = CHR ''q''"
  by (simp_all add: lower_char_def char_of_def bit_Suc_0_iff bit_0 bit_Suc)

lemma patterns_lower:
  "list_all (\<lambda>(l, p). list_all (\<lambda>w. lower w = w) (pat_keywords p @ pat_phrases p)) patterns"
  by (simp add: patterns_def lower_def lower_char_simps)

lemma patterns_unbordered:
  "list_all (\<lambda>(l, p). list_all (\<lambda>w. w \<noteq> [] \<and> unbordered w) (pat_keywords p @ pat_phrases p))
     patterns"
  by code_simp

lemma sum_list_map_cong:
  "\<forall>w \<in> set ws. p w = (q w :: nat) \<Longrightarrow> sum_list (map p ws) = sum_list (map q ws)"
  by (induction ws) simp_all

lemma scores_eval:
  "scores txt =
     map (\<lambda>(doc_type, p). (doc_type,
        sum_list (map (str_count (lower txt)) (pat_keywords p)) +
        sum_list (map (str_count (lower txt)) (pat_phrases p)) * 2)) patterns"
  unfolding scores_def
proof (rule map_cong [OF refl])
  fix x assume x: "x \<in> set patterns"
  obtain l p where lp: "x = (l, p)" by (cases x)
  from x lp patterns_lower have low: "\<forall>w \<in> set (pat_keywords p @ pat_phrases p). lower w = w"
    by (auto simp: list_all_iff)
  have k: "(\<Sum>w\<leftarrow>pat_keywords p. str_count (lower txt) (lower w) * 1) =
      sum_list (map (str_count (lower txt)) (pat_keywords p))"
    by (rule sum_list_map_cong) (use low in auto)
  have "(\<Sum>w\<leftarrow>pat_phrases p. str_count (lower txt) (lower w) * 2) =
      (\<Sum>w\<leftarrow>pat_phrases p. str_count (lower txt) w * 2)"
    by (rule sum_list_map_cong) (use low in auto)
  then have ph: "(\<Sum>w\<leftarrow>pat_phrases p. str_count (lower txt) (lower w) * 2) =
      sum_list (map (str_count (lower txt)) (pat_phrases p)) * 2"
    by (simp add: sum_list_mult_const)
  have "score_of (lower txt) p =
      sum_list (map (str_count (lower txt)) (pat_keywords p)) +
      sum_list (map (str_count (lower txt)) (pat_phrases p)) * 2"
    unfolding score_of_def fold_add_sum_list k ph by simp
  then show "(case x of (doc_type, p) \<Rightarrow> (doc_type, score_of (lower txt) p)) =
      (case x of (doc_type, p) \<Rightarrow> (doc_type,
        sum_list (map (str_count (lower txt)) (pat_keywords p)) +
        sum_list (map (str_count (lower txt)) (pat_phrases p)) * 2))"
    using lp by simp
qed

lemma scores_occurrences:
  "scores txt =
     map (\<lambda>(label, p). (label,
            (\<Sum>k\<leftarrow>pat_keywords p. occurrences_with_overlap txt k * 1) +
            (\<Sum>ph\<leftarrow>pat_phrases p. occurrences_with_overlap txt ph * 2))) patterns"
  unfolding scores_eval
proof (rule map_cong [OF refl])
  fix x assume x: "x \<in> set patterns"
  obtain l p where lp: "x = (l, p)" by (cases x)
  from x lp patterns_lower patterns_unbordered
  have ok: "\<forall>w \<in> set (pat_keywords p @ pat_phrases p). lower w = w \<and> w \<noteq> [] \<and> unbordered w"
    by (auto simp: list_all_iff)
  have eq: "str_count (lower txt) w = occurrences_with_overlap txt w"
    if "w \<in> set (pat_keywords p @ pat_phrases p)" for w
  proof -
    from that ok have "lower w = w" "w \<noteq> []" "unbordered w" by auto
    then show ?thesis by (simp add: str_count_occ occurrences_occ)
  qed
  have k: "sum_list (map (str_count (lower txt)) (pat_keywords p)) =
      (\<Sum>k\<leftarrow>pat_keywords p. occurrences_with_overlap txt k * 1)"
    by (rule sum_list_map_cong) (simp add: eq)
  have "sum_list (map (str_count (lower txt)) (pat_phrases p)) =
      sum_list (map (occurrences_with_overlap txt) (pat_phrases p))"
    by (rule sum_list_map_cong) (simp add: eq)
  then have ph: "sum_list (map (str_count (lower txt)) (pat_phrases p)) * 2 =
      (\<Sum>ph\<leftarrow>pat_phrases p. occurrences_with_overlap txt ph * 2)"
    by (simp add: sum_list_mult_const)
  show "(case x of (doc_type, p) \<Rightarrow> (doc_type,
        sum_list (map (str_count (lower txt)) (pat_keywords p)) +
        sum_list (map (str_count (lower txt)) (pat_phrases p)) * 2)) =
      (case x of (label, p) \<Rightarrow> (label,
            (\<Sum>k\<leftarrow>pat_keywords p. occurrences_with_overlap txt k * 1) +
            (\<Sum>ph\<leftarrow>pat_phrases p. occurrences_with_overlap txt ph * 2)))"
    unfolding lp prod.case k ph ..
qed

subsection \<open>Classification and confidence\<close>

lemma scores_shape:
  "\<exists>a b c d. scores txt =
     [(''press_release'', a), (''quarterly_report'', b), (''annual_report'', c),
      (''investor_deck'', d)]"
  by (simp add: scores_def patterns_def)

lemma classify_strict_max:
  assumes "(label, s) \<in> set (scores txt)"
    and "\<forall>(l', s') \<in> set (scores txt). l' \<noteq> label \<longrightarrow> s' < s"
  shows "classify_document txt = label"
proof -
  obtain a b c d where sc: "scores txt =
     [(''press_release'', a), (''quarterly_report'', b), (''annual_report'', c),
      (''investor_deck'', d)]" using scores_shape by blast
  show ?thesis using assms unfolding classify_document_def sc by auto
qed

lemma classify_all_zero:
  assumes "\<forall>(l, s) \<in> set (scores txt). s = 0"
  shows "classify_document txt = ''other''"
proof -
  obtain a b c d where sc: "scores txt =
     [(''press_release'', a), (''quarterly_report'', b), (''annual_report'', c),
      (''investor_deck'', d)]" using scores_shape by blast
  show ?thesis using assms unfolding classify_document_def sc by auto
qed

lemma classify_label:
  "classify_document txt \<in>
     {''press_release'', ''quarterly_report'', ''annual_report'', ''investor_deck'', ''other''}"
proof -
  obtain a b c d where sc: "scores txt =
     [(''press_release'', a), (''quarterly_report'', b), (''annual_report'', c),
      (''investor_deck'', d)]" using scores_shape by blast
  show ?thesis unfolding classify_document_def sc by simp
qed

lemma scores_empty:
  "scores '''' =
     [(''press_release'', 0), (''quarterly_report'', 0), (''annual_report'', 0),
      (''investor_deck'', 0)]"
  by (simp add: scores_eval patterns_def lower_def str_count.simps)

lemma scores_q1_slide:
  "scores ''Q1 slide'' =
     [(''press_release'', 0), (''quarterly_report'', 1), (''annual_report'', 0),
      (''investor_deck'', 1)]"
  by (simp add: scores_eval patterns_def lower_def lower_char_simps str_count.simps)

lemma scores_q1_slide_q1:
  "scores ''Q1 slide q1'' =
     [(''press_release'', 0), (''quarterly_report'', 2), (''annual_report'', 0),
      (''investor_deck'', 1)]"
  by (simp add: scores_eval patterns_def lower_def lower_char_simps str_count.simps)

lemma classify_empty: "classify_document '''' = ''other''"
  by (simp add: classify_document_def scores_empty)

text \<open>
  Claim C4. For every text the score of each label is the sum, over the label's keywords,
  of the occurrences of the keyword in the text (compared without regard to case,
  overlapping occurrences all counted) with weight 1, plus the same sum over its phrases
  with weight 2. \<open>classify_document\<close> returns the label whose score is strictly
  greater than every other label's, returns \<open>other\<close> when all scores are zero, always
  returns one of the five labels, and returns \<open>other\<close> on the empty text.
\<close>

theorem classify_document_correct:
  "scores txt =
     map (\<lambda>(label, p). (label,
            (\<Sum>k\<leftarrow>pat_keywords p. occurrences_with_overlap txt k * 1) +
            (\<Sum>ph\<leftarrow>pat_phrases p. occurrences_with_overlap txt ph * 2))) patterns \<and>
   (\<forall>label s. (label, s) \<in> set (scores txt) \<and>
        (\<forall>(l', s') \<in> set (scores txt). l' \<noteq> label \<longrightarrow> s' < s) \<longrightarrow>
      classify_document txt = label) \<and>
   ((\<forall>(l, s) \<in> set (scores txt). s = 0) \<longrightarrow> classify_document txt = ''other'') \<and>
   classify_document txt \<in>
     {''press_release'', ''quarterly_report'', ''annual_report'', ''investor_deck'', ''other''} \<and>
   classify_document '''' = ''other''"
  using scores_occurrences classify_strict_max classify_all_zero classify_label classify_empty
  by blast

text \<open>
  The theorem at two texts: one in which \<open>q1\<close> occurs twice and \<open>slide\<close> once,
  and the empty text.
\<close>

theorem classify_document_correct_witness:
  "classify_document ''Q1 slide q1'' = ''quarterly_report'' \<and>
   classify_document '''' = ''other''"
proof -
  let ?T = "''Q1 slide q1''"
  have h1: "(''quarterly_report'', 2) \<in> set (scores ?T) \<and>
        (\<forall>(l', s') \<in> set (scores ?T). l' \<noteq> ''quarterly_report'' \<longrightarrow> s' < 2)"
    unfolding scores_q1_slide_q1 by simp
  have h2: "\<forall>(l, s) \<in> set (scores ''''). s = 0" unfolding scores_empty by simp
  from classify_document_correct [of ?T] h1
  have "classify_document ?T = ''quarterly_report''" by blast
  moreover from classify_document_correct [of "''''"] h2
  have "classify_document '''' = ''other''" by blast
  ultimately show ?thesis by simp
qed

lemma confidence_sum:
  fixes a b c d :: nat
  assumes "0 < a + b + c + d"
  shows "(of_nat a / of_nat (a + b + c + d) * 100 + (of_nat b / of_nat (a + b + c + d) * 100 +
      (of_nat c / of_nat (a + b + c + d) * 100 + of_nat d / of_nat (a + b + c + d) * 100)))
      = (100 :: rat)"
proof -
  let ?T = "of_nat (a + b + c + d) :: rat"
  have nz: "?T \<noteq> 0" using assms by (simp only: of_nat_eq_0_iff)
  have "of_nat a / ?T * 100 + (of_nat b / ?T * 100 + (of_nat c / ?T * 100 + of_nat d / ?T * 100))
      = (of_nat a + of_nat b + of_nat c + of_nat d) / ?T * 100"
    by (simp only: add_divide_distrib distrib_right add.assoc)
  also have "of_nat a + of_nat b + of_nat c + of_nat d = ?T" by simp
  also have "?T / ?T * 100 = 100" using nz by simp
  finally show ?thesis .
qed

text \<open>
  Claim C5, as amended. When the total of the raw scores is positive,
  \<open>get_classification_confidence\<close> maps each of the four pattern labels to its score
  divided by the total, times 100 (in exact arithmetic), and the values sum to 100. When
  the total is zero it maps each of the four labels to 0; the mapping is not empty.
\<close>

theorem confidence_normalised:
  "(0 < sum_list (map snd (scores txt)) \<longrightarrow>
      get_classification_confidence txt =
        map (\<lambda>(label, s). (label,
               of_nat s / of_nat (sum_list (map snd (scores txt))) * 100)) (scores txt) \<and>
      sum_list (map snd (get_classification_confidence txt)) = 100) \<and>
   (sum_list (map snd (scores txt)) = 0 \<longrightarrow>
      get_classification_confidence txt =
        [(''press_release'', 0), (''quarterly_report'', 0), (''annual_report'', 0),
         (''investor_deck'', 0)])"
proof -
  obtain a b c d where sc: "scores txt =
     [(''press_release'', a), (''quarterly_report'', b), (''annual_report'', c),
      (''investor_deck'', d)]" using scores_shape by blast
  show ?thesis
    unfolding get_classification_confidence_def sc Let_def
    using confidence_sum [of a b c d] by (auto simp: add.assoc)
qed

text \<open>The theorem at a text with one keyword of two labels, and at the empty text.\<close>

theorem confidence_normalised_witness:
  "get_classification_confidence ''Q1 slide'' =
     [(''press_release'', 0), (''quarterly_report'', 50), (''annual_report'', 0),
      (''investor_deck'', 50)] \<and>
   sum_list (map snd (get_classification_confidence ''Q1 slide'')) = 100 \<and>
   get_classification_confidence '''' =
     [(''press_release'', 0), (''quarterly_report'', 0), (''annual_report'', 0),
      (''investor_deck'', 0)]"
  using confidence_normalised [of "''Q1 slide''"] confidence_normalised [of "''''"]
  unfolding scores_q1_slide scores_empty by simp

text \<open>
  Claim C5 as stated fails: on the empty text the total is zero and the mapping returned
  is not empty.
\<close>

theorem confidence_empty_counterexample:
  "sum_list (map snd (scores '''')) = 0 \<and> get_classification_confidence '''' \<noteq> []"
  by (simp add: get_classification_confidence_def scores_empty)

section \<open>Properties of the orchestrator\<close>

subsection \<open>Dictionaries, the merge loop and the validations\<close>

lemma map_of_dict_set: "map_of (dict_set d k v) = (map_of d)(k \<mapsto> v)"
  by (induction d) (auto simp: fun_eq_iff)

lemma keys_dict_set: "map_of d k \<noteq> None \<Longrightarrow> map fst (dict_set d k v) = map fst d"
  by (induction d) auto

lemma dict_set_same: "map_of d k = Some v \<Longrightarrow> dict_set d k v = d"
  by (induction d) (auto split: if_splits)

lemma keys_merge_cell:
  "set flds \<subseteq> set (map fst d) \<Longrightarrow> map fst (merge_cell fs flds d) = map fst d"
proof (induction flds arbitrary: d)
  case Nil
  then show ?case by simp
next
  case (Cons f rest)
  from Cons.prems have "f \<in> fst ` set d" by simp
  then have k: "map_of d f \<noteq> None" by (simp add: map_of_eq_None_iff)
  let ?d = "case map_of fs f of Some v \<Rightarrow> dict_set d f (clean_value v) | None \<Rightarrow> d"
  have kd: "map fst ?d = map fst d" using k by (simp add: keys_dict_set split: option.splits)
  with Cons.prems have "set rest \<subseteq> set (map fst ?d)" by simp
  from Cons.IH [OF this] kd show ?case by simp
qed

lemma map_of_merge_cell:
  "map_of (merge_cell fs flds d) f =
     (if f \<in> set flds
      then (case map_of fs f of Some v \<Rightarrow> Some (clean_value v) | None \<Rightarrow> map_of d f)
      else map_of d f)"
  by (induction flds arbitrary: d) (auto simp: map_of_dict_set split: option.splits)

lemma store_set_apply:
  "store_set a f v h b = (if b = a then dict_set (h a) f v else h b)"
  by (simp add: store_set_def)

lemma merge_fields_Items:
  "merge_fields a (Items fs) flds h = h(a := merge_cell fs flds (h a))"
  by (induction flds arbitrary: h)
     (auto simp: section_get_def store_set_def split: option.splits)

lemma data_section_obj:
  "data_section (Decoded (JObj kvs)) section = Inr (map_option Items (section_items kvs section))"
  by (simp add: data_section_def section_items_def split: option.splits json.splits)

lemma merge_sections_obj_step:
  "merge_sections (Decoded (JObj kvs)) ((section, a) # rest) h =
     merge_sections (Decoded (JObj kvs)) rest (h(a := merge_opt (section_items kvs section) (h a)))"
  by (simp add: data_section_obj merge_opt_def merge_fields_Items split: option.splits)

lemma merge_sections_obj:
  "merge_sections (Decoded (JObj kvs)) mna_schema h =
     (None, h(0 := merge_opt (section_items kvs ''deal_summary'') (h 0),
              1 := merge_opt (section_items kvs ''financials'') (h 1),
              2 := merge_opt (section_items kvs ''advisors'') (h 2),
              3 := merge_opt (section_items kvs ''power_plant_details'') (h 3),
              4 := merge_opt (section_items kvs ''metadata'') (h 4)))"
  unfolding mna_schema_def merge_sections_obj_step by simp

lemma validate_date_field_cell:
  "validate_date_field data (section, f) h =
     (case map_of data section of None \<Rightarrow> h | Some a \<Rightarrow> h(a := fix_date f (h a)))"
proof (cases "map_of data section")
  case None
  then show ?thesis by (simp add: validate_date_field_def)
next
  case (Some a)
  show ?thesis
  proof (cases "map_of (h a) f")
    case None
    then show ?thesis using Some by (simp add: validate_date_field_def fix_date_def)
  next
    case (Some v)
    then show ?thesis using \<open>map_of data section = Some a\<close>
      by (cases v) (auto simp: validate_date_field_def fix_date_def re_match_date_def
          store_set_def)
  qed
qed

lemma validate_monetary_field_cell:
  "validate_monetary_field data (section, f) h =
     (case map_of data section of None \<Rightarrow> h | Some a \<Rightarrow> h(a := fix_money f (h a)))"
  by (auto simp: validate_monetary_field_def fix_money_def money_def store_set_def
      dict_set_same split: option.splits)

lemma validate_dates_schema:
  "validate_dates mna_schema h =
     h(0 := fix_date ''closing_date'' (fix_date ''signing_date''
             (fix_date ''announcement_date'' (h 0))),
       3 := fix_date ''cod'' (h 3))"
  by (simp add: validate_dates_def date_fields_def validate_date_field_cell mna_schema_def
      fun_eq_iff)

lemma validate_monetary_values_schema:
  "validate_monetary_values mna_schema h =
     h(0 := fix_money ''deal_size_usd'' (h 0),
       1 := fix_money ''debt_assumed'' (fix_money ''enterprise_value''
             (fix_money ''ebitda'' (fix_money ''revenue'' (h 1)))))"
  by (simp add: validate_monetary_values_def monetary_fields_def validate_monetary_field_cell
      mna_schema_def fun_eq_iff)

lemma validate_and_clean_data_obj:
  "validate_and_clean_data mna_schema (Decoded (JObj kvs)) h =
     (Inr mna_schema, \<lambda>a. cleaned_cell a kvs (h a))"
  by (simp add: validate_and_clean_data_def shallow_copy_def merge_sections_obj
      validate_dates_schema validate_monetary_values_schema cleaned_cell_def fun_eq_iff)

subsection \<open>The schema and its store\<close>

lemma map_of_mna_schema:
  "map_of mna_schema ''deal_summary'' = Some 0"
  "map_of mna_schema ''financials'' = Some 1"
  "map_of mna_schema ''advisors'' = Some 2"
  "map_of mna_schema ''power_plant_details'' = Some 3"
  "map_of mna_schema ''metadata'' = Some 4"
  by (simp_all add: mna_schema_def)

lemma snapshot_mna_schema:
  "snapshot h mna_schema =
     [(''deal_summary'', h 0), (''financials'', h 1), (''advisors'', h 2),
      (''power_plant_details'', h 3), (''metadata'', h 4)]"
  by (simp add: snapshot_def mna_schema_def)

lemma set_item_metadata:
  "set_item mna_schema ''metadata'' f v h = (None, store_set 4 f v h)"
  by (simp add: set_item_def map_of_mna_schema)

lemma init_store_cells:
  "init_store created 0 = snd (schema_literal created ! 0)"
  "init_store created 1 = snd (schema_literal created ! 1)"
  "init_store created (Suc 0) = snd (schema_literal created ! 1)"
  "init_store created 2 = snd (schema_literal created ! 2)"
  "init_store created 3 = snd (schema_literal created ! 3)"
  "init_store created 4 = snd (schema_literal created ! 4)"
  by (simp_all add: init_store_def)

lemma decimal_digits: "list_all is_digit ''0123456789''"
  by (simp add: is_digit_def)

subsection \<open>Deal identifiers\<close>

lemma is_digit_char_of: "(n::nat) < 10 \<Longrightarrow> is_digit (''0123456789'' ! n)"
proof -
  assume "n < 10"
  then have "''0123456789'' ! n \<in> set ''0123456789''" by (intro nth_mem) simp
  with decimal_digits show ?thesis unfolding list_all_iff by blast
qed

lemma is_digit_zero: "is_digit CHR ''0''"
  by (simp add: is_digit_def)

lemma show_nat_digits: "list_all is_digit (show_nat n)"
proof (induction n rule: show_nat.induct)
  case (1 n)
  show ?case
  proof (cases "n < 10")
    case True
    then show ?thesis by (subst show_nat.simps) (simp add: is_digit_char_of)
  next
    case False
    have "n mod 10 < 10" by simp
    then have "is_digit (''0123456789'' ! (n mod 10))" by (rule is_digit_char_of)
    with False "1.IH" show ?thesis by (subst show_nat.simps) simp
  qed
qed

lemma show_nat_length: "n < 10 ^ k \<Longrightarrow> 0 < k \<Longrightarrow> length (show_nat n) \<le> k"
proof (induction n arbitrary: k rule: show_nat.induct)
  case (1 n)
  show ?case
  proof (cases "n < 10")
    case True
    then show ?thesis using "1.prems" by (subst show_nat.simps) simp
  next
    case False
    obtain j where k: "k = Suc j" using "1.prems"(2) by (cases k) auto
    have "j \<noteq> 0" using False "1.prems"(1) k by (cases j) auto
    moreover have "n div 10 < 10 ^ j" using "1.prems"(1) k
      by (simp add: less_mult_imp_div_less mult.commute)
    ultimately have "length (show_nat (n div 10)) \<le> j" using "1.IH" False by simp
    then show ?thesis using False k by (subst show_nat.simps) simp
  qed
qed

lemma pad_digits: "list_all is_digit (pad k n)"
  using show_nat_digits [of n] by (auto simp: pad_def list_all_iff is_digit_zero)

lemma pad_length: "n < 10 ^ k \<Longrightarrow> 0 < k \<Longrightarrow> length (pad k n) = k"
  using show_nat_length [of n k] by (simp add: pad_def)

lemma strftime_stamp_pattern:
  assumes "valid_datetime now"
  shows "deal_id_timestamp_pattern (''DEAL_'' @ strftime_stamp now)"
proof -
  from assms have l: "length (pad 4 (year now)) = 4" "length (pad 2 (month now)) = 2"
    "length (pad 2 (day now)) = 2" "length (pad 2 (hour now)) = 2"
    "length (pad 2 (minute now)) = 2" "length (pad 2 (second now)) = 2"
    by (simp_all add: valid_datetime_def pad_length)
  show ?thesis
    unfolding deal_id_timestamp_pattern_def strftime_stamp_def
    using l pad_digits [of 4 "year now"] pad_digits [of 2 "month now"]
      pad_digits [of 2 "day now"] pad_digits [of 2 "hour now"]
      pad_digits [of 2 "minute now"] pad_digits [of 2 "second now"]
    by (simp add: nth_append)
qed

lemma example_deal_id:
  "generate_deal_id mna_schema example_deal_store example_now = ''DEAL_AcmePowerC_20240315''"
  by (simp add: generate_deal_id_def generate_deal_id_try_def get_or_empty_def
      map_of_mna_schema example_deal_store_def store_set_def init_store_cells
      schema_literal_def re_sub_keep_def is_word_def is_digit_def)

lemma deal_id_strings:
  "get_or_empty data h ''deal_summary'' ''target_company'' = JStr t \<Longrightarrow> t \<noteq> [] \<Longrightarrow>
   get_or_empty data h ''deal_summary'' ''announcement_date'' = JStr d \<Longrightarrow>
   generate_deal_id data h now =
     ''DEAL_'' @ take 10 (filter is_word t) @ ''_'' @ take 8 (filter is_digit d)"
  by (simp add: generate_deal_id_def generate_deal_id_try_def re_sub_keep_def)

lemma deal_id_empty_target:
  "\<not> truthy (get_or_empty data h ''deal_summary'' ''target_company'') \<Longrightarrow>
   generate_deal_id data h now = ''DEAL_'' @ strftime_stamp now"
  by (simp add: generate_deal_id_def generate_deal_id_try_def)

lemma deal_id_error:
  "generate_deal_id_try data h now = Inl err \<Longrightarrow>
   generate_deal_id data h now = ''DEAL_'' @ strftime_stamp now"
  by (simp add: generate_deal_id_def)

text \<open>
  Claim C8. When the target company is a non-empty string and the announcement date a
  string, the deal identifier is \<open>DEAL_\<close>, the first ten word characters of the
  target, an underscore, and the first eight digits of the date; the target
  \<open>Acme Power Co.\<close> announced on \<open>2024-03-15\<close> gives
  \<open>DEAL_AcmePowerC_20240315\<close>. When the target is empty (or any other false value),
  or the body raises an exception, the identifier is \<open>DEAL_\<close> followed by the
  current time as \<open>YYYYMMDD_HHMMSS\<close>, which matches \<open>DEAL_\d{8}_\d{6}\<close>
  (for a time whose year has four digits).
\<close>

theorem generate_deal_id_correct:
  "(get_or_empty data h ''deal_summary'' ''target_company'' = JStr t \<and> t \<noteq> [] \<and>
    get_or_empty data h ''deal_summary'' ''announcement_date'' = JStr d \<longrightarrow>
      generate_deal_id data h now =
        ''DEAL_'' @ take 10 (filter is_word t) @ ''_'' @ take 8 (filter is_digit d)) \<and>
   generate_deal_id mna_schema example_deal_store example_now = ''DEAL_AcmePowerC_20240315'' \<and>
   (\<not> truthy (get_or_empty data h ''deal_summary'' ''target_company'') \<longrightarrow>
      generate_deal_id data h now = ''DEAL_'' @ strftime_stamp now) \<and>
   (generate_deal_id_try data h now = Inl err \<longrightarrow>
      generate_deal_id data h now = ''DEAL_'' @ strftime_stamp now) \<and>
   (valid_datetime now \<and> 1000 \<le> year now \<longrightarrow>
      deal_id_timestamp_pattern (''DEAL_'' @ strftime_stamp now))"
  using deal_id_strings [of data h t d now] deal_id_empty_target [of data h now]
    deal_id_error [of data h now err] example_deal_id strftime_stamp_pattern [of now]
  by blast

text \<open>
  The theorem at the example store, at the fresh store (empty target), and at a store
  whose target is a number (\<open>re.sub\<close> raises TypeError).
\<close>

theorem generate_deal_id_correct_witness:
  "generate_deal_id mna_schema example_deal_store example_now =
     ''DEAL_'' @ take 10 (filter is_word ''Acme Power Co.'') @ ''_'' @
       take 8 (filter is_digit ''2024-03-15'') \<and>
   generate_deal_id mna_schema (init_store example_created) example_now
     = ''DEAL_20240320_101500'' \<and>
   generate_deal_id mna_schema
       (store_set 0 ''target_company'' (JInt 7) (init_store example_created)) example_now
     = ''DEAL_20240320_101500'' \<and>
   deal_id_timestamp_pattern ''DEAL_20240320_101500''"
proof -
  have g1: "get_or_empty mna_schema example_deal_store ''deal_summary'' ''target_company''
      = JStr ''Acme Power Co.''"
    and g2: "get_or_empty mna_schema example_deal_store ''deal_summary'' ''announcement_date''
      = JStr ''2024-03-15''"
    by (simp_all add: get_or_empty_def map_of_mna_schema example_deal_store_def store_set_def
        init_store_cells schema_literal_def)
  have g3: "\<not> truthy (get_or_empty mna_schema (init_store example_created) ''deal_summary''
      ''target_company'')"
    by (simp add: get_or_empty_def map_of_mna_schema init_store_cells schema_literal_def)
  have g4: "generate_deal_id_try mna_schema
      (store_set 0 ''target_company'' (JInt 7) (init_store example_created)) example_now
      = Inl (TypeError ''expected string or bytes-like object'')"
    by (simp add: generate_deal_id_try_def get_or_empty_def map_of_mna_schema store_set_def
        init_store_cells schema_literal_def re_sub_keep_def)
  have st: "strftime_stamp example_now = ''20240320_101500''"
    by (simp add: strftime_stamp_def example_now_def pad_def show_nat.simps)
  have v: "valid_datetime example_now \<and> 1000 \<le> year example_now"
    by (simp add: valid_datetime_def example_now_def)
  note inst = generate_deal_id_correct [of mna_schema _ _ _ example_now]
  have ne: "''Acme Power Co.'' \<noteq> []" by simp
  from inst [of example_deal_store "''Acme Power Co.''" "''2024-03-15''"] g1 g2 ne
  have c1: "generate_deal_id mna_schema example_deal_store example_now =
     ''DEAL_'' @ take 10 (filter is_word ''Acme Power Co.'') @ ''_'' @
       take 8 (filter is_digit ''2024-03-15'')" by blast
  from inst [of "init_store example_created"] g3
  have c2: "generate_deal_id mna_schema (init_store example_created) example_now
     = ''DEAL_'' @ strftime_stamp example_now" by blast
  from inst [of "store_set 0 ''target_company'' (JInt 7) (init_store example_created)" _ _
      "TypeError ''expected string or bytes-like object''"] g4
  have c3: "generate_deal_id mna_schema
       (store_set 0 ''target_company'' (JInt 7) (init_store example_created)) example_now
     = ''DEAL_'' @ strftime_stamp example_now" by blast
  from inst [of "init_store example_created"] v
  have c4: "deal_id_timestamp_pattern (''DEAL_'' @ strftime_stamp example_now)" by blast
  have st': "''DEAL_'' @ strftime_stamp example_now = ''DEAL_20240320_101500''"
    by (simp add: st)
  from c1 c2 [unfolded st'] c3 [unfolded st'] c4 [unfolded st'] show ?thesis
    by (intro conjI)
qed

subsection \<open>The value of a field after cleaning\<close>

lemma map_of_fix_date:
  "map_of (fix_date f d) g = (if g = f then map_option date_value (map_of d f) else map_of d g)"
  by (auto simp: fix_date_def date_value_def map_of_dict_set split: option.splits)

lemma map_of_fix_money:
  "map_of (fix_money f d) g = (if g = f then map_option money (map_of d f) else map_of d g)"
  by (auto simp: fix_money_def map_of_dict_set split: option.splits)

lemma keys_fix_date: "map fst (fix_date f d) = map fst d"
  by (simp add: fix_date_def keys_dict_set split: option.splits)

lemma keys_fix_money: "map fst (fix_money f d) = map fst d"
  by (simp add: fix_money_def keys_dict_set split: option.splits)

lemma keys_merge_opt: "map fst (merge_opt fso d) = map fst d"
  by (simp add: merge_opt_def keys_merge_cell split: option.splits)

lemma keys_cleaned_cell: "map fst (cleaned_cell a kvs d) = map fst d"
  by (simp add: cleaned_cell_def keys_fix_date keys_fix_money keys_merge_opt)

lemma map_of_merge_opt:
  "map_of (merge_opt (section_items kvs section) d) g =
     map_option (\<lambda>old. case parsed_field (JObj kvs) section g of
                          Some v \<Rightarrow> clean_value v | None \<Rightarrow> old) (map_of d g)"
proof (cases "map_of d g")
  case None
  then have "g \<notin> set (map fst d)" by (simp add: map_of_eq_None_iff)
  then show ?thesis using None
    by (simp add: merge_opt_def map_of_merge_cell split: option.splits)
next
  case (Some old)
  then have "g \<in> set (map fst d)" by (metis map_of_eq_None_iff option.distinct(1) set_map)
  then show ?thesis using Some
    by (auto simp: merge_opt_def map_of_merge_cell parsed_field_def section_items_def
        split: option.splits json.splits)
qed

lemma mna_schema_cases:
  "(section, a) \<in> set mna_schema \<longleftrightarrow>
     (section = ''deal_summary'' \<and> a = 0) \<or> (section = ''financials'' \<and> a = 1) \<or>
     (section = ''advisors'' \<and> a = 2) \<or> (section = ''power_plant_details'' \<and> a = 3) \<or>
     (section = ''metadata'' \<and> a = 4)"
  unfolding mna_schema_def by (simp only: list.set insert_iff empty_iff prod.inject simp_thms)

lemma final_value_fun:
  "final_value section field =
     (if (section, field) \<in> set date_fields then date_value
      else if (section, field) \<in> set monetary_fields then money
      else (\<lambda>v. v))"
  by (simp add: fun_eq_iff final_value_def)

lemma map_of_cleaned_cell:
  assumes "(section, a) \<in> set mna_schema"
  shows "map_of (cleaned_cell a kvs d) g =
     map_option (final_value section g) (map_of (merge_opt (section_items kvs section) d) g)"
proof -
  from assms have c:
    "(section = ''deal_summary'' \<and> a = 0) \<or> (section = ''financials'' \<and> a = 1) \<or>
     (section = ''advisors'' \<and> a = 2) \<or> (section = ''power_plant_details'' \<and> a = 3) \<or>
     (section = ''metadata'' \<and> a = 4)"
    unfolding mna_schema_cases .
  then show ?thesis
  proof (elim disjE conjE)
    assume "section = ''deal_summary''" "a = 0"
    then show ?thesis
      by (simp add: cleaned_cell_def map_of_fix_date map_of_fix_money final_value_fun
          date_fields_def monetary_fields_def option.map_comp o_def option.map_ident)
  next
    assume "section = ''financials''" "a = 1"
    then show ?thesis
      by (simp add: cleaned_cell_def map_of_fix_date map_of_fix_money final_value_fun
          date_fields_def monetary_fields_def option.map_comp o_def option.map_ident)
  next
    assume "section = ''advisors''" "a = 2"
    then show ?thesis
      by (simp add: cleaned_cell_def final_value_fun date_fields_def monetary_fields_def
          option.map_ident)
  next
    assume "section = ''power_plant_details''" "a = 3"
    then show ?thesis
      by (simp add: cleaned_cell_def map_of_fix_date final_value_fun
          date_fields_def monetary_fields_def option.map_ident)
  next
    assume "section = ''metadata''" "a = 4"
    then show ?thesis
      by (simp add: cleaned_cell_def final_value_fun date_fields_def monetary_fields_def
          option.map_ident)
  qed
qed

lemma cleaned_field:
  assumes "(section, a) \<in> set mna_schema"
  shows "map_of (snd (validate_and_clean_data mna_schema (Decoded (JObj kvs)) h) a) g =
     map_option (\<lambda>old. final_value section g
        (case parsed_field (JObj kvs) section g of Some v \<Rightarrow> clean_value v | None \<Rightarrow> old))
       (map_of (h a) g)"
  by (simp add: validate_and_clean_data_obj map_of_cleaned_cell [OF assms] map_of_merge_opt
      option.map_comp o_def)

lemma merged_field:
  assumes "(section, a) \<in> set mna_schema"
  shows "map_of (snd (merge_sections (Decoded (JObj kvs)) mna_schema h) a) g =
     map_option (\<lambda>old. case parsed_field (JObj kvs) section g of
                          Some v \<Rightarrow> clean_value v | None \<Rightarrow> old) (map_of (h a) g)"
  using assms unfolding mna_schema_cases merge_sections_obj
  by (elim disjE conjE) (simp_all add: map_of_merge_opt)

subsection \<open>Monetary values\<close>




subsection \<open>Values that are not strings\<close>

lemma clean_value_non_string: "\<not> is_str v \<Longrightarrow> clean_value v = v"
  by (cases v) (simp_all add: clean_value_def)

lemma final_value_null: "final_value section field JNull = JNull"
  by (simp add: final_value_def date_value_def money_def)

text \<open>
  Claim C10. When the parsed result has a value that is not a string (null, a boolean, a
  number, a list or a dictionary) for a field of the schema, the merge loop stores that
  value unchanged in the record; a null is still there when
  \<open>_validate_and_clean_data\<close> returns, so the returned record can hold a value that
  is not a string.
\<close>

theorem merge_copies_non_string:
  "((section, a) \<in> set mna_schema \<and> map_of (h a) field \<noteq> None \<and>
    parsed_field (JObj kvs) section field = Some v \<and> \<not> is_str v \<longrightarrow>
      map_of (snd (merge_sections (Decoded (JObj kvs)) (shallow_copy mna_schema) h) a) field
        = Some v) \<and>
   ((section, a) \<in> set mna_schema \<and> map_of (h a) field \<noteq> None \<and>
    parsed_field (JObj kvs) section field = Some JNull \<longrightarrow>
      map_of (snd (validate_and_clean_data mna_schema (Decoded (JObj kvs)) h) a) field
        = Some JNull)"
proof (intro conjI impI)
  assume a: "(section, a) \<in> set mna_schema \<and> map_of (h a) field \<noteq> None \<and>
    parsed_field (JObj kvs) section field = Some v \<and> \<not> is_str v"
  then obtain old where "map_of (h a) field = Some old" by auto
  with a show "map_of (snd (merge_sections (Decoded (JObj kvs)) (shallow_copy mna_schema) h) a)
      field = Some v"
    by (simp add: shallow_copy_def merged_field [of "section" a] clean_value_non_string)
next
  assume a: "(section, a) \<in> set mna_schema \<and> map_of (h a) field \<noteq> None \<and>
    parsed_field (JObj kvs) section field = Some JNull"
  then obtain old where "map_of (h a) field = Some old" by auto
  with a show "map_of (snd (validate_and_clean_data mna_schema (Decoded (JObj kvs)) h) a) field
      = Some JNull"
    by (simp add: cleaned_field [of "section" a] clean_value_non_string final_value_null)
qed

text \<open>The theorem at a parsed result with a list for the country and null for the buyer.\<close>

theorem merge_copies_non_string_witness:
  "map_of (snd (merge_sections (Decoded (JObj example_null_object)) (shallow_copy mna_schema)
       (init_store example_created)) 0) ''country'' = Some (JList [JStr ''US'', JStr ''CA'']) \<and>
   map_of (snd (validate_and_clean_data mna_schema (Decoded (JObj example_null_object))
       (init_store example_created)) 0) ''buyer'' = Some JNull"
proof -
  have m: "(''deal_summary'', 0) \<in> set mna_schema" by (simp add: mna_schema_def)
  have k1: "map_of (init_store example_created 0) ''country'' \<noteq> None"
    and k2: "map_of (init_store example_created 0) ''buyer'' \<noteq> None"
    by (simp_all add: init_store_cells schema_literal_def)
  have p1: "parsed_field (JObj example_null_object) ''deal_summary'' ''country''
      = Some (JList [JStr ''US'', JStr ''CA''])"
    and p2: "parsed_field (JObj example_null_object) ''deal_summary'' ''buyer'' = Some JNull"
    by (simp_all add: parsed_field_def example_null_object_def)
  have n: "\<not> is_str (JList [JStr ''US'', JStr ''CA''])" by simp
  from merge_copies_non_string [of "''deal_summary''" 0 "init_store example_created"
      "''country''" example_null_object "JList [JStr ''US'', JStr ''CA'']"] m k1 p1 n
  have "map_of (snd (merge_sections (Decoded (JObj example_null_object))
       (shallow_copy mna_schema) (init_store example_created)) 0) ''country''
     = Some (JList [JStr ''US'', JStr ''CA''])" by (simp only: simp_thms)
  moreover
  from merge_copies_non_string [of "''deal_summary''" 0 "init_store example_created"
      "''buyer''" example_null_object] m k2 p2
  have "map_of (snd (validate_and_clean_data mna_schema (Decoded (JObj example_null_object))
       (init_store example_created)) 0) ''buyer'' = Some JNull" by (simp only: simp_thms)
  ultimately show ?thesis by (intro conjI)
qed

subsection \<open>The shape of a cleaned record\<close>

lemma clean_value_str: "clean_value (JStr s) = JStr (clean_str s)"
  by (simp add: clean_value_def clean_str_def Let_def)

lemma record_get_snapshot:
  "record_get (snapshot h d) section field =
     (case map_of d section of None \<Rightarrow> None | Some a \<Rightarrow> map_of (h a) field)"
proof -
  have "map_of (map (\<lambda>(section, a). (section, h a)) d) section = map_option h (map_of d section)"
    by (induction d) auto
  then show ?thesis by (simp add: record_get_def snapshot_def split: option.splits)
qed

lemma snapshot_init_store: "snapshot (init_store created) mna_schema = schema_literal created"
  by (simp add: snapshot_mna_schema init_store_cells schema_literal_def)

lemma record_get_schema_literal:
  "record_get (schema_literal created) section field =
     (case map_of mna_schema section of
        None \<Rightarrow> None | Some a \<Rightarrow> map_of (init_store created a) field)"
  unfolding snapshot_init_store [symmetric] record_get_snapshot ..

lemma schema_default:
  assumes "record_get (schema_literal created) section field = Some v"
  shows "v = (if section = ''metadata'' \<and> field = ''date_processed''
              then JStr (isoformat created) else JStr '''')"
proof -
  obtain a where a: "map_of mna_schema section = Some a"
    and v: "map_of (init_store created a) field = Some v"
    using assms unfolding record_get_schema_literal by (auto split: option.splits)
  from a have "(section, a) \<in> set mna_schema" by (rule map_of_SomeD)
  then have c:
    "(section = ''deal_summary'' \<and> a = 0) \<or> (section = ''financials'' \<and> a = 1) \<or>
     (section = ''advisors'' \<and> a = 2) \<or> (section = ''power_plant_details'' \<and> a = 3) \<or>
     (section = ''metadata'' \<and> a = 4)"
    unfolding mna_schema_cases .
  then show ?thesis
  proof (elim disjE conjE)
    assume "section = ''deal_summary''" "a = 0"
    with v show ?thesis
      by (simp add: init_store_cells schema_literal_def split: if_splits)
  next
    assume "section = ''financials''" "a = 1"
    with v show ?thesis
      by (simp add: init_store_cells schema_literal_def split: if_splits)
  next
    assume "section = ''advisors''" "a = 2"
    with v show ?thesis
      by (simp add: init_store_cells schema_literal_def split: if_splits)
  next
    assume "section = ''power_plant_details''" "a = 3"
    with v show ?thesis
      by (simp add: init_store_cells schema_literal_def split: if_splits)
  next
    assume "section = ''metadata''" "a = 4"
    with v show ?thesis
      by (simp add: init_store_cells schema_literal_def split: if_splits)
  qed
qed

lemma date_value_str: "date_value (JStr s) = JStr s"
  by (simp add: date_value_def)

lemma money_empty: "money (JStr []) = JStr []"
  by (simp add: money_def)

lemma metadata_not_monetary: "(''metadata'', field) \<notin> set monetary_fields"
  by (simp add: monetary_fields_def)

lemma final_value_default:
  assumes "record_get (schema_literal created) section field = Some v"
  shows "final_value section field v = v"
proof (cases "section = ''metadata'' \<and> field = ''date_processed''")
  case True
  with schema_default [OF assms] have "v = JStr (isoformat created)" by simp
  with True show ?thesis
    by (simp add: final_value_def date_value_str metadata_not_monetary)
next
  case False
  with schema_default [OF assms] have "v = JStr []" by simp
  then show ?thesis by (simp add: final_value_def date_value_str money_empty)
qed

lemma cleaned_record_get:
  "record_get (snapshot (snd (validate_and_clean_data mna_schema (Decoded (JObj kvs)) h))
       mna_schema) section field =
     map_option (\<lambda>old. final_value section field
        (case parsed_field (JObj kvs) section field of Some v \<Rightarrow> clean_value v | None \<Rightarrow> old))
       (record_get (snapshot h mna_schema) section field)"
proof (cases "map_of mna_schema section")
  case None
  then show ?thesis by (simp add: record_get_snapshot)
next
  case (Some a)
  then have "(section, a) \<in> set mna_schema" by (rule map_of_SomeD)
  from cleaned_field [OF this] Some show ?thesis by (simp add: record_get_snapshot)
qed

lemma cleaned_field_names:
  "field_names (snapshot (snd (validate_and_clean_data mna_schema (Decoded (JObj kvs)) h))
       mna_schema) = field_names (snapshot h mna_schema)"
  by (simp add: field_names_def validate_and_clean_data_obj snapshot_mna_schema
      keys_cleaned_cell)

lemma missing_field_default:
  assumes "parsed_field (JObj kvs) section field = None"
  shows "record_get (snapshot (snd (validate_and_clean_data mna_schema (Decoded (JObj kvs))
       (init_store created))) mna_schema) section field
     = record_get (schema_literal created) section field"
proof (cases "record_get (schema_literal created) section field")
  case None
  then show ?thesis using assms by (simp add: cleaned_record_get snapshot_init_store)
next
  case (Some v)
  from final_value_default [OF this] Some assms show ?thesis
    by (simp add: cleaned_record_get snapshot_init_store)
qed

lemma merge_sections_not_dict:
  assumes "\<And>section. data_section data section = Inr None \<or> (\<exists>err. data_section data section = Inl err)"
  shows "snd (merge_sections data d h) = h"
proof (induction d)
  case Nil
  show ?case by simp
next
  case (Cons x d)
  obtain sec a where x: "x = (sec, a)" by (cases x)
  from assms [of sec] Cons show ?case unfolding x by auto
qed

lemma data_section_not_obj:
  assumes "\<And>kvs. v \<noteq> JObj kvs"
  shows "data_section (Decoded v) section = Inr None \<or>
     (\<exists>err. data_section (Decoded v) section = Inl err)"
  using assms by (cases v) (auto simp: data_section_def)

lemma fresh_validations:
  "validate_monetary_values mna_schema (validate_dates mna_schema (init_store created))
     = init_store created"
  by (simp add: validate_dates_schema validate_monetary_values_schema init_store_cells
      schema_literal_def fix_date_def fix_money_def money_def fun_eq_iff)

lemma not_object_result:
  assumes "\<And>kvs. v \<noteq> JObj kvs"
    and "fst (validate_and_clean_data mna_schema (Decoded v) (init_store created)) = Inr r"
  shows "snd (validate_and_clean_data mna_schema (Decoded v) (init_store created))
     = init_store created"
proof -
  have "snd (merge_sections (Decoded v) mna_schema (init_store created)) = init_store created"
    by (rule merge_sections_not_dict [OF data_section_not_obj [OF assms(1)]])
  with assms(2) show ?thesis
    by (cases "merge_sections (Decoded v) mna_schema (init_store created)")
       (auto simp: validate_and_clean_data_def shallow_copy_def fresh_validations
          split: option.splits)
qed

lemma returned_record_names:
  assumes "fst (validate_and_clean_data mna_schema (Decoded v) (init_store created)) = Inr r"
  shows "field_names (snapshot (snd (validate_and_clean_data mna_schema (Decoded v)
       (init_store created))) mna_schema) = field_names (schema_literal created)"
proof (cases "\<exists>kvs. v = JObj kvs")
  case True
  then show ?thesis by (auto simp: cleaned_field_names snapshot_init_store)
next
  case False
  then have "\<And>kvs. v \<noteq> JObj kvs" by blast
  from not_object_result [OF this assms] show ?thesis by (simp add: snapshot_init_store)
qed

lemma returned_record_defaults:
  assumes "fst (validate_and_clean_data mna_schema (Decoded v) (init_store created)) = Inr r"
    and "parsed_field v section field = None"
  shows "record_get (snapshot (snd (validate_and_clean_data mna_schema (Decoded v)
       (init_store created))) mna_schema) section field
     = record_get (schema_literal created) section field"
proof (cases "\<exists>kvs. v = JObj kvs")
  case True
  with assms(2) show ?thesis by (auto simp: missing_field_default)
next
  case False
  then have "\<And>kvs. v \<noteq> JObj kvs" by blast
  from not_object_result [OF this assms(1)] show ?thesis by (simp add: snapshot_init_store)
qed

text \<open>
  Claim C1, as amended. On an orchestrator whose schema no earlier call has touched, for
  every parsed result, a record that \<open>_validate_and_clean_data\<close> returns has exactly
  the sections and fields of the schema (so no field of the parsed result outside the
  schema is retained); a field the parsed result does not give carries the schema
  default, which is the empty string for every field except
  \<open>metadata.date_processed\<close>, whose default is the time the orchestrator was built.
  For a parsed result that is a JSON object, the empty one included, a record is returned.
\<close>

theorem clean_record_shape_fresh:
  "(fst (validate_and_clean_data mna_schema (Decoded v) (init_store created)) = Inr r \<longrightarrow>
      field_names (snapshot (snd (validate_and_clean_data mna_schema (Decoded v)
         (init_store created))) mna_schema) = field_names (schema_literal created) \<and>
      (\<forall>section field. parsed_field v section field = None \<longrightarrow>
         record_get (snapshot (snd (validate_and_clean_data mna_schema (Decoded v)
            (init_store created))) mna_schema) section field
          = record_get (schema_literal created) section field)) \<and>
   fst (validate_and_clean_data mna_schema (Decoded (JObj kvs)) (init_store created))
     = Inr mna_schema \<and>
   (\<forall>section field d. record_get (schema_literal created) section field = Some d \<longrightarrow>
      d = (if section = ''metadata'' \<and> field = ''date_processed''
           then JStr (isoformat created) else JStr ''''))"
proof (intro conjI impI allI)
  assume "fst (validate_and_clean_data mna_schema (Decoded v) (init_store created)) = Inr r"
  then show "field_names (snapshot (snd (validate_and_clean_data mna_schema (Decoded v)
       (init_store created))) mna_schema) = field_names (schema_literal created)"
    by (rule returned_record_names)
next
  fix sec field
  assume "fst (validate_and_clean_data mna_schema (Decoded v) (init_store created)) = Inr r"
    and "parsed_field v sec field = None"
  then show "record_get (snapshot (snd (validate_and_clean_data mna_schema (Decoded v)
       (init_store created))) mna_schema) sec field
     = record_get (schema_literal created) sec field"
    by (rule returned_record_defaults)
next
  show "fst (validate_and_clean_data mna_schema (Decoded (JObj kvs)) (init_store created))
     = Inr mna_schema"
    by (simp add: validate_and_clean_data_obj)
next
  fix sec field d
  assume "record_get (schema_literal created) sec field = Some d"
  then show "d = (if sec = ''metadata'' \<and> field = ''date_processed''
           then JStr (isoformat created) else JStr '''')"
    by (rule schema_default)
qed

text \<open>
  The theorem at a parsed result that gives a buyer, a field outside the schema and a
  section outside the schema.
\<close>

theorem clean_record_shape_fresh_witness:
  "field_names (snapshot (snd (validate_and_clean_data mna_schema
       (Decoded (JObj example_partial_object)) (init_store example_created))) mna_schema)
     = field_names (schema_literal example_created) \<and>
   record_get (snapshot (snd (validate_and_clean_data mna_schema
       (Decoded (JObj example_partial_object)) (init_store example_created))) mna_schema)
       ''deal_summary'' ''seller'' = Some (JStr '''') \<and>
   record_get (snapshot (snd (validate_and_clean_data mna_schema
       (Decoded (JObj example_partial_object)) (init_store example_created))) mna_schema)
       ''deal_summary'' ''nickname'' = None \<and>
   record_get (snapshot (snd (validate_and_clean_data mna_schema
       (Decoded (JObj example_partial_object)) (init_store example_created))) mna_schema)
       ''notes'' ''remark'' = None"
proof -
  note inst = clean_record_shape_fresh [of "JObj example_partial_object" example_created
      mna_schema example_partial_object]
  have ret: "fst (validate_and_clean_data mna_schema (Decoded (JObj example_partial_object))
      (init_store example_created)) = Inr mna_schema"
    using inst by blast
  have p1: "parsed_field (JObj example_partial_object) ''deal_summary'' ''seller'' = None"
    by (simp add: parsed_field_def example_partial_object_def)
  have s1: "record_get (schema_literal example_created) ''deal_summary'' ''seller''
      = Some (JStr '''')"
    and s2: "record_get (schema_literal example_created) ''deal_summary'' ''nickname'' = None"
    and s3: "record_get (schema_literal example_created) ''notes'' ''remark'' = None"
    by (simp_all add: record_get_def schema_literal_def)
  have f: "field_names (snapshot (snd (validate_and_clean_data mna_schema
       (Decoded (JObj example_partial_object)) (init_store example_created))) mna_schema)
     = field_names (schema_literal example_created)"
    using inst ret by blast
  have r1: "record_get (snapshot (snd (validate_and_clean_data mna_schema
       (Decoded (JObj example_partial_object)) (init_store example_created))) mna_schema)
       ''deal_summary'' ''seller'' = Some (JStr '''')"
    using inst ret p1 s1 by metis
  have r3: "record_get (snapshot (snd (validate_and_clean_data mna_schema
       (Decoded (JObj example_partial_object)) (init_store example_created))) mna_schema)
       ''notes'' ''remark'' = None"
    by (simp add: cleaned_record_get snapshot_init_store s3)
  have r2: "record_get (snapshot (snd (validate_and_clean_data mna_schema
       (Decoded (JObj example_partial_object)) (init_store example_created))) mna_schema)
       ''deal_summary'' ''nickname'' = None"
    by (simp add: cleaned_record_get snapshot_init_store s2)
  from f r1 r2 r3 show ?thesis by (intro conjI)
qed

text \<open>
  Claim C1 as stated fails: merging the empty object on a fresh orchestrator leaves
  \<open>metadata.date_processed\<close>, which the parsed result does not give, at the time of
  construction, not at the empty string.
\<close>

theorem date_processed_default_counterexample:
  "parsed_field (JObj []) ''metadata'' ''date_processed'' = None \<and>
   record_get (snapshot (snd (validate_and_clean_data mna_schema (Decoded (JObj []))
       (init_store example_created))) mna_schema) ''metadata'' ''date_processed''
     = Some (JStr ''2024-01-02T03:04:05'')"
proof -
  have p: "parsed_field (JObj []) ''metadata'' ''date_processed'' = None"
    by (simp add: parsed_field_def)
  have iso: "isoformat example_created = ''2024-01-02T03:04:05''"
    by (simp add: isoformat_def example_created_def pad_def show_nat.simps)
  have "record_get (schema_literal example_created) ''metadata'' ''date_processed''
      = Some (JStr (isoformat example_created))"
    by (simp add: record_get_def schema_literal_def)
  with missing_field_default [OF p, of example_created] iso p show ?thesis by simp
qed

subsection \<open>Merging string values\<close>

lemma lower_not_available: "lower ''N/A'' = ''n/a''"
  by (simp add: lower_def lower_char_def char_of_def bit_Suc_0_iff bit_0 bit_Suc)

lemma clean_str_not_available: "clean_str s \<noteq> ''N/A''"
proof
  assume a: "clean_str s = ''N/A''"
  show False
  proof (cases "lower (strip s) \<in> set ['''', ''n/a'', ''null'', ''none'']")
    case True
    with a show False by (simp add: clean_str_def Let_def)
  next
    case False
    with a have "strip s = ''N/A''" by (simp add: clean_str_def Let_def)
    with False show False by (simp add: lower_not_available)
  qed
qed

lemma dates_not_monetary:
  "(section, field) \<in> set date_fields \<Longrightarrow> (section, field) \<notin> set monetary_fields"
  unfolding date_fields_def monetary_fields_def
  by (simp only: list.set insert_iff empty_iff prod.inject simp_thms) auto

lemma final_value_str:
  assumes "x \<noteq> ''N/A''"
  shows "final_value section field (JStr x) =
     JStr (if (section, field) \<in> set monetary_fields then digits_and_points x else x)"
proof (cases "(section, field) \<in> set date_fields")
  case True
  with dates_not_monetary [OF True] show ?thesis by (simp add: final_value_def date_value_str)
next
  case False
  then show ?thesis using assms
    by (cases "x = []") (simp_all add: final_value_def money_def digits_and_points_def py_str_def)
qed

lemma string_field_cleaned:
  assumes "record_get (schema_literal created) section field \<noteq> None"
    and "parsed_field (JObj kvs) section field = Some (JStr s)"
  shows "record_get (snapshot (snd (validate_and_clean_data mna_schema (Decoded (JObj kvs))
       (init_store created))) mna_schema) section field =
     Some (JStr (if (section, field) \<in> set monetary_fields
                 then digits_and_points (clean_str s) else clean_str s))"
proof -
  from assms(1) obtain old where "record_get (schema_literal created) section field = Some old"
    by auto
  then show ?thesis
    using assms(2) final_value_str [OF clean_str_not_available, of "section" field s]
    by (simp add: cleaned_record_get snapshot_init_store clean_value_str)
qed

lemma empty_object_default:
  "snapshot (snd (validate_and_clean_data mna_schema (Decoded (JObj [])) (init_store created)))
     mna_schema = schema_literal created"
  by (simp add: validate_and_clean_data_obj snapshot_mna_schema cleaned_cell_def
      section_items_def merge_opt_def init_store_cells schema_literal_def fix_date_def
      fix_money_def money_def)

text \<open>
  Claim C6, as amended. On an orchestrator whose schema no earlier call has touched, a
  field of the schema for which the parsed object gives a string holds, after
  \<open>_validate_and_clean_data\<close>, that string trimmed and with the sentinels collapsed
  to the empty string, and for the five monetary fields further reduced to its digits and
  decimal points. Merging the empty object yields the all-default schema instance.
\<close>

theorem merge_round_trip_fresh:
  "(\<forall>section field s.
      record_get (schema_literal created) section field \<noteq> None \<and>
      parsed_field (JObj kvs) section field = Some (JStr s) \<longrightarrow>
        record_get (snapshot (snd (validate_and_clean_data mna_schema (Decoded (JObj kvs))
            (init_store created))) mna_schema) section field =
          Some (JStr (if (section, field) \<in> set monetary_fields
                      then digits_and_points (clean_str s) else clean_str s))) \<and>
   snapshot (snd (validate_and_clean_data mna_schema (Decoded (JObj [])) (init_store created)))
     mna_schema = schema_literal created"
  using string_field_cleaned [of created _ _ kvs] empty_object_default [of created]
  by blast

lemma example_full_object_fields:
  "parsed_field (JObj example_full_object) ''financials'' ''revenue'' = Some (JStr ''$5M'')"
  "parsed_field (JObj example_full_object) ''deal_summary'' ''buyer'' = Some (JStr '' N/A '')"
  "parsed_field (JObj example_full_object) ''advisors'' ''other_advisors''
     = Some (JStr '' Acme '')"
  by (simp_all add: parsed_field_def example_full_object_def schema_literal_def)

lemma example_full_object_covers:
  "covers_schema (JObj example_full_object) (schema_literal example_created)"
  by (simp add: covers_schema_def has_string_field_def parsed_field_def example_full_object_def
      schema_literal_def)

lemma clean_str_examples:
  "clean_str ''$5M'' = ''$5M''"
  "clean_str '' N/A '' = ''''"
  "clean_str '' Acme '' = ''Acme''"
  by (simp_all add: clean_str_def strip_def is_space_def lower_def lower_char_def
      char_of_def bit_Suc_0_iff bit_0 bit_Suc)

lemma schema_fields_present:
  "record_get (schema_literal created) ''financials'' ''revenue'' \<noteq> None"
  "record_get (schema_literal created) ''deal_summary'' ''buyer'' \<noteq> None"
  "record_get (schema_literal created) ''advisors'' ''other_advisors'' \<noteq> None"
  by (simp_all add: record_get_def schema_literal_def)

lemma monetary_examples:
  "(''financials'', ''revenue'') \<in> set monetary_fields"
  "(''deal_summary'', ''buyer'') \<notin> set monetary_fields"
  "(''advisors'', ''other_advisors'') \<notin> set monetary_fields"
  by (simp_all add: monetary_fields_def)

lemma digits_of_example: "digits_and_points ''$5M'' = ''5''"
  by (simp add: digits_and_points_def is_digit_def)

text \<open>The theorem at a parsed object that has a string for every field of the schema.\<close>

theorem merge_round_trip_fresh_witness:
  "record_get (snapshot (snd (validate_and_clean_data mna_schema
       (Decoded (JObj example_full_object)) (init_store example_created))) mna_schema)
       ''deal_summary'' ''buyer'' = Some (JStr '''') \<and>
   record_get (snapshot (snd (validate_and_clean_data mna_schema
       (Decoded (JObj example_full_object)) (init_store example_created))) mna_schema)
       ''advisors'' ''other_advisors'' = Some (JStr ''Acme'') \<and>
   snapshot (snd (validate_and_clean_data mna_schema (Decoded (JObj []))
       (init_store example_created))) mna_schema = schema_literal example_created"
proof -
  note inst = merge_round_trip_fresh [of example_created example_full_object]
  from inst schema_fields_present(2) example_full_object_fields(2)
  have "record_get (snapshot (snd (validate_and_clean_data mna_schema
       (Decoded (JObj example_full_object)) (init_store example_created))) mna_schema)
       ''deal_summary'' ''buyer'' =
     Some (JStr (if (''deal_summary'', ''buyer'') \<in> set monetary_fields
                 then digits_and_points (clean_str '' N/A '') else clean_str '' N/A ''))"
    by blast
  then have r1: "record_get (snapshot (snd (validate_and_clean_data mna_schema
       (Decoded (JObj example_full_object)) (init_store example_created))) mna_schema)
       ''deal_summary'' ''buyer'' = Some (JStr '''')"
    by (simp only: monetary_examples clean_str_examples if_False)
  from inst schema_fields_present(3) example_full_object_fields(3)
  have "record_get (snapshot (snd (validate_and_clean_data mna_schema
       (Decoded (JObj example_full_object)) (init_store example_created))) mna_schema)
       ''advisors'' ''other_advisors'' =
     Some (JStr (if (''advisors'', ''other_advisors'') \<in> set monetary_fields
                 then digits_and_points (clean_str '' Acme '') else clean_str '' Acme ''))"
    by blast
  then have r2: "record_get (snapshot (snd (validate_and_clean_data mna_schema
       (Decoded (JObj example_full_object)) (init_store example_created))) mna_schema)
       ''advisors'' ''other_advisors'' = Some (JStr ''Acme'')"
    by (simp only: monetary_examples clean_str_examples if_False)
  from inst have r3: "snapshot (snd (validate_and_clean_data mna_schema (Decoded (JObj []))
       (init_store example_created))) mna_schema = schema_literal example_created"
    by blast
  from r1 r2 r3 show ?thesis by (intro conjI)
qed

text \<open>
  Claim C6 as stated fails: the parsed object has a string for every field of the schema,
  its revenue \<open>$5M\<close> is unchanged by trimming and sentinel collapse, and the record
  holds \<open>5\<close>.
\<close>

theorem monetary_round_trip_counterexample:
  "covers_schema (JObj example_full_object) (schema_literal example_created) \<and>
   parsed_field (JObj example_full_object) ''financials'' ''revenue'' = Some (JStr ''$5M'') \<and>
   clean_str ''$5M'' = ''$5M'' \<and>
   record_get (snapshot (snd (validate_and_clean_data mna_schema
       (Decoded (JObj example_full_object)) (init_store example_created))) mna_schema)
       ''financials'' ''revenue'' = Some (JStr ''5'')"
proof -
  have "record_get (snapshot (snd (validate_and_clean_data mna_schema
       (Decoded (JObj example_full_object)) (init_store example_created))) mna_schema)
       ''financials'' ''revenue'' =
     Some (JStr (if (''financials'', ''revenue'') \<in> set monetary_fields
                 then digits_and_points (clean_str ''$5M'') else clean_str ''$5M''))"
    by (rule string_field_cleaned [OF schema_fields_present(1) example_full_object_fields(1)])
  then have "record_get (snapshot (snd (validate_and_clean_data mna_schema
       (Decoded (JObj example_full_object)) (init_store example_created))) mna_schema)
       ''financials'' ''revenue'' = Some (JStr ''5'')"
    by (simp only: monetary_examples clean_str_examples if_True digits_of_example)
  with example_full_object_covers example_full_object_fields(1) clean_str_examples(1)
  show ?thesis by (intro conjI)
qed

subsection \<open>Monetary values of a parsed object\<close>












subsection \<open>The paths through \<open>process_document\<close>\<close>

lemma merge_fields_Ref:
  "merge_fields a (Ref a) flds h = h(a := self_clean flds (h a))"
  by (induction flds arbitrary: h)
     (auto simp: section_get_def store_set_def split: option.splits)

lemma data_section_copy:
  "data_section (Schema_copy d) section = Inr (map_option Ref (map_of d section))"
  by (simp add: data_section_def split: option.splits)

lemma merge_sections_copy:
  "merge_sections (Schema_copy mna_schema) mna_schema h =
     (None, h(0 := self_clean (map fst (h 0)) (h 0),
              1 := self_clean (map fst (h 1)) (h 1),
              2 := self_clean (map fst (h 2)) (h 2),
              3 := self_clean (map fst (h 3)) (h 3),
              4 := self_clean (map fst (h 4)) (h 4)))"
proof -
  have "merge_sections (Schema_copy mna_schema)
      [(''deal_summary'', 0), (''financials'', 1), (''advisors'', 2),
       (''power_plant_details'', 3), (''metadata'', 4)] h =
     (None, h(0 := self_clean (map fst (h 0)) (h 0),
              1 := self_clean (map fst (h 1)) (h 1),
              2 := self_clean (map fst (h 2)) (h 2),
              3 := self_clean (map fst (h 3)) (h 3),
              4 := self_clean (map fst (h 4)) (h 4)))"
    by (simp add: data_section_copy merge_fields_Ref map_of_mna_schema)
  then show ?thesis by (simp only: mna_schema_def [symmetric])
qed

lemma merge_error_store:
  assumes "fst (merge_sections data mna_schema h) = Some err"
  shows "snd (merge_sections data mna_schema h) = h"
proof (cases data)
  case (Schema_copy d)
  show ?thesis
  proof (cases "d = mna_schema")
    case True
    with assms Schema_copy show ?thesis by (simp add: merge_sections_copy)
  next
    case False
    have "fst (merge_sections (Schema_copy d) d' h') = None" for d' h'
      by (induction d' arbitrary: h')
         (auto simp: data_section_copy split: option.splits)
    with assms Schema_copy show ?thesis by simp
  qed
next
  case (Decoded v)
  show ?thesis
  proof (cases "\<exists>kvs. v = JObj kvs")
    case True
    with assms Decoded show ?thesis by (auto simp: merge_sections_obj)
  next
    case False
    then have "\<And>kvs. v \<noteq> JObj kvs" by blast
    from merge_sections_not_dict [of "Decoded v", OF data_section_not_obj [OF this]]
    show ?thesis using Decoded by simp
  qed
qed

lemma validate_error_store:
  assumes "fst (validate_and_clean_data mna_schema data h) = Inl err"
  shows "snd (validate_and_clean_data mna_schema data h) = h"
proof -
  obtain r h1 where m: "merge_sections data mna_schema h = (r, h1)"
    by (cases "merge_sections data mna_schema h")
  with assms have "r = Some err"
    by (cases r) (simp_all add: validate_and_clean_data_def shallow_copy_def)
  with m merge_error_store [of data h err] have "h1 = h" by simp
  with m \<open>r = Some err\<close> show ?thesis
    by (simp add: validate_and_clean_data_def shallow_copy_def)
qed

lemma validate_result:
  "fst (validate_and_clean_data mna_schema data h) = Inr c \<Longrightarrow> c = mna_schema"
  by (auto simp: validate_and_clean_data_def shallow_copy_def split: prod.splits option.splits)

lemma stamp_set_items:
  "(case set_item mna_schema ''metadata'' ''date_processed''
            (JStr (isoformat (now_processed e))) h1 of
      (Some err, h2) \<Rightarrow> (Inl err, h2)
    | (None, h2) \<Rightarrow>
        (case set_item mna_schema ''metadata'' ''deal_id''
                (JStr (generate_deal_id mna_schema h2 (now_deal_id e))) h2 of
           (Some err, h3) \<Rightarrow> (Inl err, h3)
         | (None, h3) \<Rightarrow> (Inr mna_schema, h3)))
   = (Inr mna_schema, stamp e h1)"
  by (simp add: set_item_metadata stamp_def Let_def)

lemma try_after_parse:
  assumes "completion e (create_extraction_prompt mna_schema h txt doc_type) = Inr content"
    and "parse_ai_response mna_schema e content = Inr data"
  shows "process_document_try mna_schema e txt doc_type h =
     (case fst (validate_and_clean_data mna_schema data h) of
        Inl err \<Rightarrow> (Inl err, h)
      | Inr c \<Rightarrow> (Inr mna_schema, stamp e (snd (validate_and_clean_data mna_schema data h))))"
proof -
  obtain r h1 where v: "validate_and_clean_data mna_schema data h = (r, h1)"
    by (cases "validate_and_clean_data mna_schema data h")
  show ?thesis
  proof (cases r)
    case (Inl err)
    with v validate_error_store [of data h err] have "h1 = h" by simp
    with v Inl assms show ?thesis by (simp add: process_document_try_def)
  next
    case (Inr c)
    with v validate_result [of data h c] have "c = mna_schema" by simp
    with v Inr assms show ?thesis
      by (simp add: process_document_try_def stamp_set_items)
  qed
qed

lemma try_error_store:
  assumes "fst (process_document_try mna_schema e txt doc_type h) = Inl err"
  shows "snd (process_document_try mna_schema e txt doc_type h) = h"
proof (cases "completion e (create_extraction_prompt mna_schema h txt doc_type)")
  case (Inl a)
  then show ?thesis by (simp add: process_document_try_def)
next
  case (Inr content)
  show ?thesis
  proof (cases "parse_ai_response mna_schema e content")
    case (Inl a)
    with Inr show ?thesis by (simp add: process_document_try_def)
  next
    case (Inr data)
    from try_after_parse [OF \<open>completion e _ = Inr content\<close> Inr] assms
    show ?thesis by (auto split: sum.splits)
  qed
qed

lemma try_result:
  assumes "fst (process_document_try mna_schema e txt doc_type h) = Inr c"
  shows "c = mna_schema"
proof (cases "completion e (create_extraction_prompt mna_schema h txt doc_type)")
  case (Inl a)
  with assms show ?thesis by (simp add: process_document_try_def)
next
  case (Inr content)
  show ?thesis
  proof (cases "parse_ai_response mna_schema e content")
    case (Inl a)
    with Inr assms show ?thesis by (simp add: process_document_try_def)
  next
    case (Inr data)
    from try_after_parse [OF \<open>completion e _ = Inr content\<close> Inr] assms
    show ?thesis by (auto split: sum.splits)
  qed
qed

lemma process_error:
  assumes "fst (process_document_try mna_schema e txt doc_type h) = Inl err"
  shows "process_document mna_schema e txt doc_type h =
     (Inr mna_schema, store_set 4 ''extraction_error'' (JStr (str_e err)) h)"
proof -
  from assms try_error_store [OF assms]
  have "process_document_try mna_schema e txt doc_type h = (Inl err, h)"
    by (cases "process_document_try mna_schema e txt doc_type h") simp
  then show ?thesis
    by (simp add: process_document_def shallow_copy_def set_item_metadata)
qed

lemma process_returns:
  "fst (process_document mna_schema e txt doc_type h) = Inr mna_schema"
proof (cases "fst (process_document_try mna_schema e txt doc_type h)")
  case (Inl err)
  from process_error [OF this] show ?thesis by simp
next
  case (Inr c)
  with try_result [OF Inr] show ?thesis
    by (cases "process_document_try mna_schema e txt doc_type h")
       (simp add: process_document_def)
qed

lemma parse_loads:
  "parse_ai_response mna_schema e (Some s) =
     (case loads_response e s of
        Inr v \<Rightarrow> Inr (Decoded v)
      | Inl (JSONDecodeError m) \<Rightarrow> Inr (Schema_copy mna_schema)
      | Inl err \<Rightarrow> Inl err)"
  by (simp add: parse_ai_response_def loads_response_def shallow_copy_def
      split: sum.splits py_error.splits option.splits)

lemma process_object:
  assumes "completion e (create_extraction_prompt mna_schema h txt doc_type) = Inr (Some s)"
    and "loads_response e s = Inr (JObj kvs)"
  shows "process_document mna_schema e txt doc_type h =
     (Inr mna_schema, stamp e (\<lambda>a. cleaned_cell a kvs (h a)))"
proof -
  have "parse_ai_response mna_schema e (Some s) = Inr (Decoded (JObj kvs))"
    using assms(2) by (simp add: parse_loads)
  from try_after_parse [OF assms(1) this] show ?thesis
    by (simp add: process_document_def validate_and_clean_data_obj)
qed

lemma process_json_failure:
  assumes "completion e (create_extraction_prompt mna_schema h txt doc_type) = Inr (Some s)"
    and "loads_response e s = Inl (JSONDecodeError m)"
  shows "process_document mna_schema e txt doc_type h =
     (Inr mna_schema,
      stamp e (validate_monetary_values mna_schema (validate_dates mna_schema
        (snd (merge_sections (Schema_copy mna_schema) mna_schema h)))))"
proof -
  have "parse_ai_response mna_schema e (Some s) = Inr (Schema_copy mna_schema)"
    using assms(2) by (simp add: parse_loads)
  from try_after_parse [OF assms(1) this] show ?thesis
    by (simp add: process_document_def validate_and_clean_data_def shallow_copy_def
        merge_sections_copy)
qed

lemma clean_str_empty: "clean_str [] = []"
  by (simp add: clean_str_def strip_def lower_def)

lemma fresh_error_snapshot:
  "snapshot (store_set 4 ''extraction_error'' (JStr msg) (init_store created)) mna_schema =
     with_extraction_error msg (schema_literal created)"
  by (simp add: snapshot_mna_schema store_set_def init_store_cells schema_literal_def
      with_extraction_error_def)

lemma fresh_self_merge:
  "snd (merge_sections (Schema_copy mna_schema) mna_schema (init_store created)) =
     (init_store created)
       (4 := dict_set (init_store created 4) ''date_processed''
               (JStr (clean_str (isoformat created))))"
  by (simp add: merge_sections_copy init_store_cells schema_literal_def clean_value_str
      clean_str_empty fun_eq_iff)

lemma fresh_json_failure_snapshot:
  "snapshot (stamp e (validate_monetary_values mna_schema (validate_dates mna_schema
       (snd (merge_sections (Schema_copy mna_schema) mna_schema (init_store created))))))
     mna_schema =
   with_stamps (isoformat (now_processed e)) (''DEAL_'' @ strftime_stamp (now_deal_id e))
     (schema_literal created)"
  by (simp add: fresh_self_merge validate_dates_schema validate_monetary_values_schema
      init_store_cells schema_literal_def fix_date_def fix_money_def money_def stamp_def
      store_set_def generate_deal_id_def generate_deal_id_try_def get_or_empty_def
      map_of_mna_schema snapshot_mna_schema with_stamps_def)

text \<open>
  Claim C2, as amended. \<open>process_document\<close> never lets an exception out: it always
  returns a record. On an orchestrator whose schema no earlier call has touched, an
  exception that leaves the body of the \<open>try\<close> gives the all-default record with
  \<open>metadata.extraction_error\<close> set to the text of the exception; a response that
  \<open>json.loads\<close> rejects with JSONDecodeError is recovered inside the parser, no error
  is recorded, and the record is all-default except for the two stamps
  \<open>metadata.date_processed\<close> (the current time) and \<open>metadata.deal_id\<close>
  (\<open>DEAL_\<close> and the current time).
\<close>

theorem process_document_never_raises:
  "fst (process_document mna_schema e txt doc_type h) = Inr mna_schema \<and>
   (fst (process_document_try mna_schema e txt doc_type (init_store created)) = Inl err \<longrightarrow>
      snapshot (snd (process_document mna_schema e txt doc_type (init_store created)))
        mna_schema = with_extraction_error (str_e err) (schema_literal created)) \<and>
   (completion e (create_extraction_prompt mna_schema (init_store created) txt doc_type)
      = Inr (Some s) \<and>
    (case re_search_braces s of Some json_str \<Rightarrow> json_loads e json_str
     | None \<Rightarrow> json_loads e s) = Inl (JSONDecodeError m) \<longrightarrow>
      snapshot (snd (process_document mna_schema e txt doc_type (init_store created)))
        mna_schema =
      with_stamps (isoformat (now_processed e)) (''DEAL_'' @ strftime_stamp (now_deal_id e))
        (schema_literal created))"
proof (intro conjI impI)
  show "fst (process_document mna_schema e txt doc_type h) = Inr mna_schema"
    by (rule process_returns)
next
  assume "fst (process_document_try mna_schema e txt doc_type (init_store created)) = Inl err"
  from process_error [OF this]
  show "snapshot (snd (process_document mna_schema e txt doc_type (init_store created)))
      mna_schema = with_extraction_error (str_e err) (schema_literal created)"
    by (simp add: fresh_error_snapshot)
next
  assume a: "completion e (create_extraction_prompt mna_schema (init_store created) txt doc_type)
      = Inr (Some s) \<and>
    (case re_search_braces s of Some json_str \<Rightarrow> json_loads e json_str
     | None \<Rightarrow> json_loads e s) = Inl (JSONDecodeError m)"
  then have "loads_response e s = Inl (JSONDecodeError m)" by (simp add: loads_response_def)
  from process_json_failure [OF conjunct1 [OF a] this]
  show "snapshot (snd (process_document mna_schema e txt doc_type (init_store created)))
      mna_schema =
    with_stamps (isoformat (now_processed e)) (''DEAL_'' @ strftime_stamp (now_deal_id e))
      (schema_literal created)"
    by (simp add: fresh_json_failure_snapshot)
qed

lemma stamp_other: "a \<noteq> 4 \<Longrightarrow> stamp e h a = h a"
  by (simp add: stamp_def store_set_def Let_def)

lemma example_stamps:
  "isoformat example_now = ''2024-03-20T10:15:00''"
  "strftime_stamp example_now = ''20240320_101500''"
  by (simp_all add: isoformat_def strftime_stamp_def example_now_def pad_def show_nat.simps)

lemma prose_not_json:
  "re_search_braces response_prose = None"
  "json_loads (env_answering response_prose) response_prose
     = Inl (JSONDecodeError ''Expecting value: line 1 column 1 (char 0)'')"
  by (simp_all add: re_search_braces_def response_prose_def env_answering_def example_loads_def
      response_buyer_def response_empty_def)

lemma prose_loads:
  "loads_response (env_answering response_prose) response_prose
     = Inl (JSONDecodeError ''Expecting value: line 1 column 1 (char 0)'')"
  by (simp add: loads_response_def prose_not_json)

lemma buyer_loads:
  "loads_response (env_answering response_buyer) response_buyer
     = Inr (JObj [(''deal_summary'', JObj [(''buyer'', JStr ''X'')])])"
  by (simp add: loads_response_def re_search_braces_def response_buyer_def env_answering_def
      example_loads_def)

lemma answering_completion:
  "completion (env_answering response) p = Inr (Some response)"
  "now_processed (env_answering response) = example_now"
  "now_deal_id (env_answering response) = example_now"
  by (simp_all add: env_answering_def)

lemma failing_try:
  "fst (process_document_try mna_schema env_failing txt doc_type h)
     = Inl (OtherError ''Connection error.'')"
  by (simp add: process_document_try_def env_failing_def)

text \<open>
  The theorem at a completion call that raises and at a response that is prose, each on
  a fresh orchestrator.
\<close>

theorem process_document_never_raises_witness:
  "fst (process_document mna_schema env_failing ''Acme sells to X'' ''press_release''
       (init_store example_created)) = Inr mna_schema \<and>
   snapshot (snd (process_document mna_schema env_failing ''Acme sells to X'' ''press_release''
       (init_store example_created))) mna_schema =
     with_extraction_error ''Connection error.'' (schema_literal example_created) \<and>
   snapshot (snd (process_document mna_schema (env_answering response_prose)
       ''Acme sells to X'' ''press_release'' (init_store example_created))) mna_schema =
     with_stamps ''2024-03-20T10:15:00'' ''DEAL_20240320_101500''
       (schema_literal example_created)"
proof -
  note i1 = process_document_never_raises [of env_failing "''Acme sells to X''"
      "''press_release''" "init_store example_created" example_created
      "OtherError ''Connection error.''"]
  note i2 = process_document_never_raises [of "env_answering response_prose"
      "''Acme sells to X''" "''press_release''" "init_store example_created" example_created
      _ response_prose "''Expecting value: line 1 column 1 (char 0)''"]
  have c1: "fst (process_document mna_schema env_failing ''Acme sells to X'' ''press_release''
       (init_store example_created)) = Inr mna_schema"
    using i1 by blast
  have "snapshot (snd (process_document mna_schema env_failing ''Acme sells to X''
       ''press_release'' (init_store example_created))) mna_schema =
     with_extraction_error (str_e (OtherError ''Connection error.''))
       (schema_literal example_created)"
    using i1 failing_try by blast
  then have c2: "snapshot (snd (process_document mna_schema env_failing ''Acme sells to X''
       ''press_release'' (init_store example_created))) mna_schema =
     with_extraction_error ''Connection error.'' (schema_literal example_created)"
    by (simp only: str_e.simps)
  have h: "completion (env_answering response_prose)
       (create_extraction_prompt mna_schema (init_store example_created) ''Acme sells to X''
          ''press_release'') = Inr (Some response_prose) \<and>
    (case re_search_braces response_prose of
       Some json_str \<Rightarrow> json_loads (env_answering response_prose) json_str
     | None \<Rightarrow> json_loads (env_answering response_prose) response_prose)
      = Inl (JSONDecodeError ''Expecting value: line 1 column 1 (char 0)'')"
    by (simp add: answering_completion prose_not_json)
  have "snapshot (snd (process_document mna_schema (env_answering response_prose)
       ''Acme sells to X'' ''press_release'' (init_store example_created))) mna_schema =
     with_stamps (isoformat (now_processed (env_answering response_prose)))
       (''DEAL_'' @ strftime_stamp (now_deal_id (env_answering response_prose)))
       (schema_literal example_created)"
    using i2 h by blast
  then have c3: "snapshot (snd (process_document mna_schema (env_answering response_prose)
       ''Acme sells to X'' ''press_release'' (init_store example_created))) mna_schema =
     with_stamps ''2024-03-20T10:15:00'' ''DEAL_20240320_101500''
       (schema_literal example_created)"
    by (simp add: answering_completion example_stamps)
  from c1 c2 c3 show ?thesis by (intro conjI)
qed

text \<open>
  Claim C2 as stated fails: on a fresh orchestrator a response that is not JSON gives a
  record whose \<open>metadata.deal_id\<close> is not the default, and no
  \<open>extraction_error\<close> is recorded.
\<close>

theorem json_failure_stamps_counterexample:
  "re_search_braces response_prose = None \<and>
   json_loads (env_answering response_prose) response_prose
     = Inl (JSONDecodeError ''Expecting value: line 1 column 1 (char 0)'') \<and>
   record_get (schema_literal example_created) ''metadata'' ''deal_id'' = Some (JStr '''') \<and>
   record_get (snapshot (snd (process_document mna_schema (env_answering response_prose)
       ''Acme sells to X'' ''press_release'' (init_store example_created))) mna_schema)
       ''metadata'' ''deal_id'' = Some (JStr ''DEAL_20240320_101500'') \<and>
   record_get (snapshot (snd (process_document mna_schema (env_answering response_prose)
       ''Acme sells to X'' ''press_release'' (init_store example_created))) mna_schema)
       ''metadata'' ''extraction_error'' = None"
proof -
  have s: "snapshot (snd (process_document mna_schema (env_answering response_prose)
       ''Acme sells to X'' ''press_release'' (init_store example_created))) mna_schema =
     with_stamps ''2024-03-20T10:15:00'' ''DEAL_20240320_101500''
       (schema_literal example_created)"
    by (simp add: process_json_failure [OF answering_completion(1) prose_loads]
        fresh_json_failure_snapshot answering_completion example_stamps)
  have d: "record_get (schema_literal example_created) ''metadata'' ''deal_id''
      = Some (JStr '''')"
    by (simp add: record_get_def schema_literal_def)
  have r1: "record_get (with_stamps ''2024-03-20T10:15:00'' ''DEAL_20240320_101500''
       (schema_literal example_created)) ''metadata'' ''deal_id''
     = Some (JStr ''DEAL_20240320_101500'')"
    and r2: "record_get (with_stamps ''2024-03-20T10:15:00'' ''DEAL_20240320_101500''
       (schema_literal example_created)) ''metadata'' ''extraction_error'' = None"
    by (simp_all add: record_get_def with_stamps_def schema_literal_def)
  from prose_not_json d r1 r2 show ?thesis unfolding s by (intro conjI)
qed

text \<open>
  Claim C3 is violated by the code. \<open>dict.copy\<close> is shallow: the record a call
  returns shares its inner dictionaries with \<open>self.mna_schema\<close>. After one call whose
  response names the buyer \<open>X\<close>, the schema itself holds \<open>X\<close> as its buyer, and a
  later call that takes the error path returns a record with that buyer.
\<close>

theorem schema_mutated_by_process_document:
  "snapshot (init_store example_created) mna_schema = schema_literal example_created \<and>
   record_get (schema_literal example_created) ''deal_summary'' ''buyer'' = Some (JStr '''') \<and>
   record_get (snapshot (snd (process_document mna_schema (env_answering response_buyer)
       ''Acme sells to X'' ''press_release'' (init_store example_created))) mna_schema)
       ''deal_summary'' ''buyer'' = Some (JStr ''X'') \<and>
   record_get (snapshot (snd (process_document mna_schema env_failing ''Another document''
       ''other'' (snd (process_document mna_schema (env_answering response_buyer)
          ''Acme sells to X'' ''press_release'' (init_store example_created))))) mna_schema)
       ''deal_summary'' ''buyer'' = Some (JStr ''X'')"
proof -
  let ?h1 = "snd (process_document mna_schema (env_answering response_buyer)
       ''Acme sells to X'' ''press_release'' (init_store example_created))"
  have d: "record_get (schema_literal example_created) ''deal_summary'' ''buyer''
      = Some (JStr '''')"
    by (simp add: record_get_def schema_literal_def)
  have c: "?h1 0 = cleaned_cell 0 [(''deal_summary'', JObj [(''buyer'', JStr ''X'')])]
      (init_store example_created 0)"
    by (simp add: process_object [OF answering_completion(1) buyer_loads] stamp_other)
  have b: "map_of (?h1 0) ''buyer'' = Some (JStr ''X'')"
    unfolding c
    by (simp add: cleaned_cell_def section_items_def merge_opt_def init_store_cells
        schema_literal_def fix_date_def fix_money_def money_def clean_value_str clean_str_def
        strip_def is_space_def lower_def)
  have r1: "record_get (snapshot ?h1 mna_schema) ''deal_summary'' ''buyer'' = Some (JStr ''X'')"
    using b by (simp add: record_get_snapshot map_of_mna_schema)
  have "snd (process_document mna_schema env_failing ''Another document'' ''other'' ?h1) 0
      = ?h1 0"
    by (simp add: process_error [OF failing_try] store_set_def)
  then have r2: "record_get (snapshot (snd (process_document mna_schema env_failing
      ''Another document'' ''other'' ?h1)) mna_schema) ''deal_summary'' ''buyer''
      = Some (JStr ''X'')"
    using b by (simp add: record_get_snapshot map_of_mna_schema)
  from snapshot_init_store [of example_created] d r1 r2 show ?thesis by (intro conjI)
qed

end
